theory Spec2Isabelle
  imports Complex_Main
begin

section \<open>Numbers\<close>

text \<open>
  The calculator is written in JavaScript/TypeScript; every quantity is a \<open>number\<close>.
  Numbers are modelled as \<^typ>\<open>real\<close>: the formulas are the source's, evaluated in exact
  arithmetic. IEEE-754 rounding error and the infinities are outside the model. NaN enters
  the calculation in one place, the two table lookups by \<open>fuelType\<close>; it is left out at
  first and added in the section on inherited keys.
  Loop counters, period counts and calendar years are \<^typ>\<open>nat\<close>, the reward level is
  \<^typ>\<open>int\<close>. \<open>Math.pow\<close> with a whole-number exponent is \<open>^\<close>; with the fractional
  exponent \<open>month/12\<close> and a positive base it is \<open>powr\<close>.
\<close>

text \<open>
  \<open>table[key] || dflt\<close> for a key that is the table's own or in no object: the default
  replaces a missing entry and a zero entry.
\<close>

definition js_or :: "real option \<Rightarrow> real \<Rightarrow> real" where
  "js_or v dflt = (case v of None \<Rightarrow> dflt | Some x \<Rightarrow> if x = 0 then dflt else x)"

text \<open>\<open>Math.round\<close>: the nearest integer, a tie going up.\<close>

definition Math_round :: "real \<Rightarrow> int" where
  "Math_round x = \<lfloor>x + 1 / 2\<rfloor>"

text \<open>\<open>Math.round(x * 100) / 100\<close>, the server's rounding of every output field.\<close>

definition round2 :: "real \<Rightarrow> real" where
  "round2 x = of_int (Math_round (x * 100)) / 100"

text \<open>
  \<open>Number(x.toFixed(2))\<close>, the client's rounding: the sign is set aside, a magnitude of at
  least \<open>10^21\<close> is printed as it is, otherwise the nearest multiple of \<open>1/100\<close> is taken,
  the larger one on a tie.
\<close>

definition toFixed2 :: "real \<Rightarrow> real" where
  "toFixed2 x =
     (if x < 0
      then (if 10 ^ 21 \<le> - x then x else - (of_int \<lfloor>(- x) * 100 + 1 / 2\<rfloor> / 100))
      else (if 10 ^ 21 \<le> x then x else of_int \<lfloor>x * 100 + 1 / 2\<rfloor> / 100))"

section \<open>Rate tables and constants\<close>

text \<open>
  The tables and constants below are the same in the server file and in
  \<open>calculationUtils.ts\<close>, except \<open>FUEL_INFLATION\<close> (0.09 on the server, 0.075 in the
  client) and \<open>ELECTRICITY_INFLATION\<close> (client only).
\<close>

definition FUEL_PRICES :: "(string \<times> real) list" where
  "FUEL_PRICES = [(''diesel'', 19.32), (''petrol95'', 21.62), (''petrol93'', 21.51)]"

definition FUEL_CONSUMPTION :: "(string \<times> real) list" where
  "FUEL_CONSUMPTION = [(''diesel'', 8), (''petrol95'', 9), (''petrol93'', 9)]"

definition BASE_EBUCKS :: "(int \<times> real) list" where
  "BASE_EBUCKS =
     [(1, 0.20 * 0.75), (2, 0.40 * 0.75), (3, 0.80 * 0.75), (4, 2.00 * 0.75), (5, 4.00 * 0.75)]"

definition INSURANCE_RATES :: "(int \<times> real) list" where
  "INSURANCE_RATES = [(1, 0.10), (2, 0.20), (3, 0.40), (4, 0.80), (5, 2.00)]"

definition FINANCING_RATES :: "(int \<times> real) list" where
  "FINANCING_RATES = [(1, 0.10), (2, 0.20), (3, 0.40), (4, 0.80), (5, 2.00)]"

definition MONTHLY_FUEL_SPEND_CAP :: real where
  "MONTHLY_FUEL_SPEND_CAP = 3000"

definition FUEL_INFLATION_server :: real where
  "FUEL_INFLATION_server = 0.09"

definition FUEL_INFLATION_client :: real where
  "FUEL_INFLATION_client = 0.075"

definition ELECTRICITY_INFLATION :: real where
  "ELECTRICITY_INFLATION = 0.1062"

definition DISCOUNT_RATE :: real where
  "DISCOUNT_RATE = 0.1095"

definition DEFAULT_YEARS :: nat where
  "DEFAULT_YEARS = 5"

definition CARBON_TAX :: "(nat \<times> real) list" where
  "CARBON_TAX =
     [(2025, 236), (2026, 308), (2027, 347), (2028, 390),
      (2029, 440), (2030, 495), (2031, 495), (2032, 495)]"

definition CO2_PER_LITRE :: real where
  "CO2_PER_LITRE = 2.35"

definition EV_CONSUMPTION :: real where
  "EV_CONSUMPTION = 0.189"

definition STANDARD_ESKOM_RATE :: real where
  "STANDARD_ESKOM_RATE = 3.7"

definition PREMIUM_ESKOM_RATE :: real where
  "PREMIUM_ESKOM_RATE = 7.0"

definition ESKOM_RATE :: real where
  "ESKOM_RATE = (STANDARD_ESKOM_RATE * 0.9) + (PREMIUM_ESKOM_RATE * 0.1)"

definition CO2_GRID :: real where
  "CO2_GRID = 0.9"

definition CO2_SOLAR :: real where
  "CO2_SOLAR = 0.09"

section \<open>Helper functions\<close>

definition presentValueOfGrowingAnnuity :: "real \<Rightarrow> real \<Rightarrow> real \<Rightarrow> nat \<Rightarrow> real" where
  "presentValueOfGrowingAnnuity cashFlow growthRate discountRate periods =
     (if \<bar>growthRate - discountRate\<bar> < 1 / 10 ^ 9
      then cashFlow * real periods / (1 + discountRate) ^ periods
      else cashFlow *
             (((1 + growthRate) ^ periods - (1 + discountRate) ^ periods)
                / (growthRate - discountRate))
             / (1 + discountRate) ^ periods)"

definition presentValue :: "real \<Rightarrow> real \<Rightarrow> nat \<Rightarrow> real" where
  "presentValue cashFlow discountRate yearIndex = cashFlow / (1 + discountRate) ^ yearIndex"

definition calculateMonthlyCO2 :: "real \<Rightarrow> string \<Rightarrow> real" where
  "calculateMonthlyCO2 dst ft =
     (let consumptionRate = js_or (map_of FUEL_CONSUMPTION ft) 9.0;
          monthlyLitres = (consumptionRate * dst) / 100.0;
          monthlyCO2 = monthlyLitres * CO2_PER_LITRE
      in monthlyCO2)"

text \<open>
  \<open>CARBON_TAX[year] || CARBON_TAX[Math.max(...Object.keys(CARBON_TAX).map(Number))]\<close>:
  the year's rate, or the rate of the table's largest year.
\<close>

definition carbonTaxMaxYear :: nat where
  "carbonTaxMaxYear = fold max (map fst CARBON_TAX) 0"

definition carbonTaxRate :: "nat \<Rightarrow> real" where
  "carbonTaxRate year =
     js_or (map_of CARBON_TAX year)
       (case map_of CARBON_TAX carbonTaxMaxYear of None \<Rightarrow> 0 | Some r \<Rightarrow> r)"

definition currentYear :: nat where
  "currentYear = 2025"

text \<open>
  The carbon-tax loop, \<open>for (let i = 0; i < 5; i++)\<close>, which both files contain three
  times over with the same body.
\<close>

definition carbonTaxLoop :: "real \<Rightarrow> real" where
  "carbonTaxLoop annualTonnesCo2 =
     fold (\<lambda>i acc.
             let year = currentYear + i;
                 rate = carbonTaxRate year;
                 annualCarbonCost = annualTonnesCo2 * rate
             in acc + presentValue annualCarbonCost DISCOUNT_RATE (i + 1))
          [0..<5] 0"

text \<open>
  The result records take the type of their numbers as a parameter: \<^typ>\<open>real\<close> where
  every number of the calculation is a number, and a type with NaN further down.
\<close>

record 'n StandardUpfrontBenefits =
  std_presentValueEbucks :: 'n
  std_carbonTaxSavings :: 'n
  std_upfrontSavings :: 'n

text \<open>
  \<open>calculateStandardUpfrontBenefits(distance, fuelType, ebucksLevel = 4)\<close>. The two files
  differ only in the value of \<open>FUEL_INFLATION\<close>, which is the first argument here.
\<close>

definition calculateStandardUpfrontBenefits ::
  "real \<Rightarrow> real \<Rightarrow> string \<Rightarrow> int \<Rightarrow> real StandardUpfrontBenefits" where
  "calculateStandardUpfrontBenefits FUEL_INFLATION dst ft ebucksLevel =
     (let consumptionRate = js_or (map_of FUEL_CONSUMPTION ft) 9.0;
          monthlyLitres = (consumptionRate * dst) / 100.0;
          fuelPrice = js_or (map_of FUEL_PRICES ft) 21.62;
          monthlyFuelSpend = monthlyLitres * fuelPrice;
          baseRate = js_or (map_of BASE_EBUCKS ebucksLevel) 0.0;
          insuranceRate = js_or (map_of INSURANCE_RATES ebucksLevel) 0.0;
          financingRate = js_or (map_of FINANCING_RATES ebucksLevel) 0.0;
          totalRate = baseRate + insuranceRate + financingRate;
          effectiveFuelSpend = min monthlyFuelSpend MONTHLY_FUEL_SPEND_CAP;
          qualifyingLitres = effectiveFuelSpend / fuelPrice;
          year1Ebucks = totalRate * qualifyingLitres * 12;
          annualLitres = monthlyLitres * 12;
          annualTonnesCo2 = (annualLitres * CO2_PER_LITRE) / 1000.0;
          carbonTaxSavings = carbonTaxLoop annualTonnesCo2;
          pvEbucks = presentValueOfGrowingAnnuity year1Ebucks FUEL_INFLATION DISCOUNT_RATE 5;
          upfrontSavings = pvEbucks + carbonTaxSavings
      in \<lparr> std_presentValueEbucks = round2 pvEbucks,
           std_carbonTaxSavings = round2 carbonTaxSavings,
           std_upfrontSavings = round2 upfrontSavings \<rparr>)"

section \<open>Input and result\<close>

record CalculationInput =
  ebucksLevel :: int
  fuelType :: string
  distance :: real
  hasInsurance :: bool
  hasFinancing :: bool
  hasSolar :: bool
  hasNoBank :: bool
  loanTermYears :: nat

record 'n Co2Emissions =
  ice :: 'n
  ev :: 'n
  monthlySavings :: 'n
  yearlySavings :: 'n

record 'n CalculationResult =
  presentValueEbucks :: 'n
  carbonTaxSavings :: 'n
  fuelSpendSavings :: 'n
  upfrontSavings :: 'n
  totalSavings :: 'n
  standardUpfrontBenefits :: "'n StandardUpfrontBenefits"
  co2Emissions :: "'n Co2Emissions"

section \<open>The local values of the calculation\<close>

text \<open>
  The \<open>POST /calculate\<close> handler and \<open>calculateSavings\<close> bind the same local constants
  with the same right-hand sides; each is a function of the input here. The lookups by
  \<open>fuelType\<close>, here and in the two helper functions above, are the lookups among the
  table's own keys; the section on inherited keys has the others.
\<close>

text \<open>\<open>data.loanTermYears || DEFAULT_YEARS\<close>.\<close>

definition loanTermYears_or_default :: "CalculationInput \<Rightarrow> nat" where
  "loanTermYears_or_default data =
     (if loanTermYears data = 0 then DEFAULT_YEARS else loanTermYears data)"

definition consumptionRate :: "CalculationInput \<Rightarrow> real" where
  "consumptionRate data = js_or (map_of FUEL_CONSUMPTION (fuelType data)) 9.0"

definition monthlyLitres :: "CalculationInput \<Rightarrow> real" where
  "monthlyLitres data = (consumptionRate data * distance data) / 100.0"

definition fuelPrice :: "CalculationInput \<Rightarrow> real" where
  "fuelPrice data = js_or (map_of FUEL_PRICES (fuelType data)) 21.62"

definition monthlyFuelSpend :: "CalculationInput \<Rightarrow> real" where
  "monthlyFuelSpend data = monthlyLitres data * fuelPrice data"

definition annualEvCost :: "CalculationInput \<Rightarrow> real" where
  "annualEvCost data = distance data * 12 * EV_CONSUMPTION * ESKOM_RATE"

text \<open>
  \<open>Array.from({ length: loanTermYears }, (_, i) => presentValue(c, DISCOUNT_RATE, i + 1))
  .reduce((a, b) => a + b, 0)\<close>
\<close>

definition pvLevelStream :: "real \<Rightarrow> nat \<Rightarrow> real" where
  "pvLevelStream c n =
     fold (\<lambda>b a. a + b) (map (\<lambda>i. presentValue c DISCOUNT_RATE (i + 1)) [0..<n]) 0"

definition pvEvCost :: "CalculationInput \<Rightarrow> real" where
  "pvEvCost data =
     (if hasSolar data
      then (let solarEvCost = annualEvCost data * 0.1
            in pvLevelStream solarEvCost (loanTermYears_or_default data))
      else pvLevelStream (annualEvCost data) (loanTermYears_or_default data))"

definition baseRate :: "CalculationInput \<Rightarrow> real" where
  "baseRate data =
     (if \<not> hasNoBank data then js_or (map_of BASE_EBUCKS (ebucksLevel data)) 0.0 else 0)"

definition insuranceRate :: "CalculationInput \<Rightarrow> real" where
  "insuranceRate data =
     (if \<not> hasNoBank data
      then (if hasInsurance data then js_or (map_of INSURANCE_RATES (ebucksLevel data)) 0.0
            else 0.0)
      else 0)"

definition financingRate :: "CalculationInput \<Rightarrow> real" where
  "financingRate data =
     (if \<not> hasNoBank data
      then (if hasFinancing data then js_or (map_of FINANCING_RATES (ebucksLevel data)) 0.0
            else 0.0)
      else 0)"

definition totalRate :: "CalculationInput \<Rightarrow> real" where
  "totalRate data = baseRate data + insuranceRate data + financingRate data"

definition effectiveFuelSpend :: "CalculationInput \<Rightarrow> real" where
  "effectiveFuelSpend data = min (monthlyFuelSpend data) MONTHLY_FUEL_SPEND_CAP"

definition qualifyingLitres :: "CalculationInput \<Rightarrow> real" where
  "qualifyingLitres data = effectiveFuelSpend data / fuelPrice data"

definition year1Ebucks :: "CalculationInput \<Rightarrow> real" where
  "year1Ebucks data = totalRate data * qualifyingLitres data * 12"

text \<open>\<open>pvEbucks\<close>; the first argument is the file's \<open>FUEL_INFLATION\<close>.\<close>

definition pvEbucks :: "real \<Rightarrow> CalculationInput \<Rightarrow> real" where
  "pvEbucks FUEL_INFLATION data =
     presentValueOfGrowingAnnuity (year1Ebucks data) FUEL_INFLATION DISCOUNT_RATE 5"

text \<open>The local \<open>carbonTaxSavings\<close>, before rounding.\<close>

definition annualLitres :: "CalculationInput \<Rightarrow> real" where
  "annualLitres data = monthlyLitres data * 12"

definition annualTonnesCo2 :: "CalculationInput \<Rightarrow> real" where
  "annualTonnesCo2 data = (annualLitres data * CO2_PER_LITRE) / 1000.0"

definition carbonTaxSavings_local :: "CalculationInput \<Rightarrow> real" where
  "carbonTaxSavings_local data =
     (if \<not> hasNoBank data then carbonTaxLoop (annualTonnesCo2 data) else 0.0)"

definition iceMonthlyEmissions :: "CalculationInput \<Rightarrow> real" where
  "iceMonthlyEmissions data = calculateMonthlyCO2 (distance data) (fuelType data)"

definition evMonthlyEmissions :: "CalculationInput \<Rightarrow> real" where
  "evMonthlyEmissions data =
     (if hasSolar data then distance data * EV_CONSUMPTION * CO2_SOLAR
      else distance data * EV_CONSUMPTION * CO2_GRID)"

definition monthlyCO2Savings :: "CalculationInput \<Rightarrow> real" where
  "monthlyCO2Savings data = iceMonthlyEmissions data - evMonthlyEmissions data"

definition yearlyCO2Savings :: "CalculationInput \<Rightarrow> real" where
  "yearlyCO2Savings data = monthlyCO2Savings data * 12"

section \<open>The server: POST /calculate\<close>

text \<open>
  \<open>for (let i = 0; i < loanTermYears; i++) { costYear = year1FuelCost *
  Math.pow(1 + FUEL_INFLATION, i); pvFuelCost += presentValue(costYear, DISCOUNT_RATE, i + 1) }\<close>
\<close>

definition year1FuelCost :: "CalculationInput \<Rightarrow> real" where
  "year1FuelCost data = monthlyFuelSpend data * 12"

definition pvFuelCost :: "CalculationInput \<Rightarrow> real" where
  "pvFuelCost data =
     fold (\<lambda>i acc.
             let costYear = year1FuelCost data * (1 + FUEL_INFLATION_server) ^ i
             in acc + presentValue costYear DISCOUNT_RATE (i + 1))
          [0..<loanTermYears_or_default data] 0"

definition calculate :: "CalculationInput \<Rightarrow> real CalculationResult" where
  "calculate data =
     (let fuelSpendSavings = pvFuelCost data - pvEvCost data;
          pvEbucks = pvEbucks FUEL_INFLATION_server data;
          carbonTaxSavings = carbonTaxSavings_local data;
          upfrontSavings = pvEbucks + carbonTaxSavings;
          loanTermSavings = fuelSpendSavings;
          totalSavings = upfrontSavings + loanTermSavings;
          standardUpfrontBenefits =
            calculateStandardUpfrontBenefits FUEL_INFLATION_server (distance data) (fuelType data) 4
      in \<lparr> presentValueEbucks = round2 pvEbucks,
           carbonTaxSavings = round2 carbonTaxSavings,
           fuelSpendSavings = round2 loanTermSavings,
           upfrontSavings = round2 upfrontSavings,
           totalSavings = round2 totalSavings,
           standardUpfrontBenefits = standardUpfrontBenefits,
           co2Emissions =
             \<lparr> ice = round2 (iceMonthlyEmissions data),
               ev = round2 (evMonthlyEmissions data),
               monthlySavings = round2 (monthlyCO2Savings data),
               yearlySavings = round2 (yearlyCO2Savings data) \<rparr> \<rparr>)"

section \<open>The client: calculateSavings in calculationUtils.ts\<close>

definition calculateCumulativeCost :: "real \<Rightarrow> real \<Rightarrow> nat \<Rightarrow> real" where
  "calculateCumulativeCost monthlyBaseCost annualInflation months =
     fold (\<lambda>month total.
             let inflatedMonthlyCost =
                   monthlyBaseCost * (1 + annualInflation) powr (real month / 12)
             in total + inflatedMonthlyCost)
          [0..<months] 0"

definition monthlyChargingCost :: "CalculationInput \<Rightarrow> real" where
  "monthlyChargingCost data =
     (let monthlyChargingRate = ESKOM_RATE;
          monthlyEvConsumption = distance data * EV_CONSUMPTION;
          baseMonthlyChargingCost = monthlyEvConsumption * monthlyChargingRate
      in if hasSolar data then baseMonthlyChargingCost * 0.1 else baseMonthlyChargingCost)"

definition rawFuelSpendSavings :: "CalculationInput \<Rightarrow> real" where
  "rawFuelSpendSavings data =
     (let totalMonths = loanTermYears_or_default data * 12;
          cumFuel = calculateCumulativeCost (monthlyFuelSpend data) FUEL_INFLATION_client totalMonths;
          cumCharge =
            calculateCumulativeCost (monthlyChargingCost data) ELECTRICITY_INFLATION totalMonths
      in toFixed2 (cumFuel - cumCharge))"

definition calculateSavings :: "CalculationInput \<Rightarrow> real CalculationResult" where
  "calculateSavings data =
     (let rawFuelSpendSavings = rawFuelSpendSavings data;
          fuelSpendSavings = rawFuelSpendSavings - pvEvCost data;
          pvEbucks = pvEbucks FUEL_INFLATION_client data;
          carbonTaxSavings = carbonTaxSavings_local data;
          upfrontSavings = pvEbucks + carbonTaxSavings;
          loanTermSavings = fuelSpendSavings;
          totalSavings = upfrontSavings + loanTermSavings;
          standardUpfrontBenefits =
            calculateStandardUpfrontBenefits FUEL_INFLATION_client (distance data) (fuelType data) 4
      in \<lparr> presentValueEbucks = toFixed2 pvEbucks,
           carbonTaxSavings = toFixed2 carbonTaxSavings,
           fuelSpendSavings = rawFuelSpendSavings,
           upfrontSavings = toFixed2 upfrontSavings,
           totalSavings = toFixed2 (upfrontSavings + rawFuelSpendSavings),
           standardUpfrontBenefits =
             \<lparr> std_presentValueEbucks = toFixed2 (std_presentValueEbucks standardUpfrontBenefits),
               std_carbonTaxSavings = toFixed2 (std_carbonTaxSavings standardUpfrontBenefits),
               std_upfrontSavings = toFixed2 (std_upfrontSavings standardUpfrontBenefits) \<rparr>,
           co2Emissions =
             \<lparr> ice = toFixed2 (iceMonthlyEmissions data),
               ev = toFixed2 (evMonthlyEmissions data),
               monthlySavings = toFixed2 (monthlyCO2Savings data),
               yearlySavings = toFixed2 (yearlyCO2Savings data) \<rparr> \<rparr>)"

section \<open>A sample request\<close>

text \<open>The request body shown on the server's landing page.\<close>

definition sample_request :: CalculationInput where
  "sample_request =
     \<lparr> ebucksLevel = 3, fuelType = ''petrol95'', distance = 1500, hasInsurance = True,
       hasFinancing = True, hasSolar = False, hasNoBank = False, loanTermYears = 5 \<rparr>"

section \<open>Table keys that every object inherits, and NaN\<close>

text \<open>
  \<open>FUEL_PRICES\<close> and \<open>FUEL_CONSUMPTION\<close> are object literals indexed by the request's
  \<open>fuelType\<close>, a string. \<open>table[key]\<close> finds an own key of the table, or else a member
  that every object inherits from \<open>Object.prototype\<close>, or else nothing. An inherited
  member is a function (for \<open>__proto__\<close> an object): it is truthy, so \<open>||\<close> keeps it, and
  the first arithmetic operation on it gives NaN. The definitions so far take the default
  there; they are the calculation for every other \<open>fuelType\<close>. The definitions of this
  section repeat the calculation with the inherited members and with NaN. The tables indexed
  by a number (the reward level, the year) have no such keys.
\<close>

text \<open>The own property names of \<open>Object.prototype\<close> (ECMAScript, with its Annex B).\<close>

definition Object_prototype_keys :: "string list" where
  "Object_prototype_keys =
     [''constructor'', ''__defineGetter__'', ''__defineSetter__'', ''hasOwnProperty'',
      ''__lookupGetter__'', ''__lookupSetter__'', ''isPrototypeOf'', ''propertyIsEnumerable'',
      ''toString'', ''valueOf'', ''__proto__'', ''toLocaleString'']"

datatype js_value = Undefined | Number real | Inherited

definition js_get :: "(string \<times> real) list \<Rightarrow> string \<Rightarrow> js_value" where
  "js_get table key =
     (case map_of table key of
        Some v \<Rightarrow> Number v
      | None \<Rightarrow> if key \<in> set Object_prototype_keys then Inherited else Undefined)"

text \<open>
  A number of the program: NaN or a real. Arithmetic with NaN gives NaN and a comparison
  with NaN is false; on reals both are the real ones (the infinities stay outside the
  model). NaN is written \<open>null\<close> in the JSON response.
\<close>

datatype jsnum = NaN | Num real

instantiation jsnum :: "{plus, minus, times, inverse, abs, ord}"
begin

definition plus_jsnum :: "jsnum \<Rightarrow> jsnum \<Rightarrow> jsnum" where
  "plus_jsnum a b = (case (a, b) of (Num x, Num y) \<Rightarrow> Num (x + y) | _ \<Rightarrow> NaN)"

definition minus_jsnum :: "jsnum \<Rightarrow> jsnum \<Rightarrow> jsnum" where
  "minus_jsnum a b = (case (a, b) of (Num x, Num y) \<Rightarrow> Num (x - y) | _ \<Rightarrow> NaN)"

definition times_jsnum :: "jsnum \<Rightarrow> jsnum \<Rightarrow> jsnum" where
  "times_jsnum a b = (case (a, b) of (Num x, Num y) \<Rightarrow> Num (x * y) | _ \<Rightarrow> NaN)"

definition divide_jsnum :: "jsnum \<Rightarrow> jsnum \<Rightarrow> jsnum" where
  "divide_jsnum a b = (case (a, b) of (Num x, Num y) \<Rightarrow> Num (x / y) | _ \<Rightarrow> NaN)"

definition inverse_jsnum :: "jsnum \<Rightarrow> jsnum" where
  "inverse_jsnum a = (case a of Num x \<Rightarrow> Num (inverse x) | NaN \<Rightarrow> NaN)"

definition abs_jsnum :: "jsnum \<Rightarrow> jsnum" where
  "abs_jsnum a = (case a of Num x \<Rightarrow> Num \<bar>x\<bar> | NaN \<Rightarrow> NaN)"

definition less_eq_jsnum :: "jsnum \<Rightarrow> jsnum \<Rightarrow> bool" where
  "less_eq_jsnum a b = (case (a, b) of (Num x, Num y) \<Rightarrow> x \<le> y | _ \<Rightarrow> False)"

definition less_jsnum :: "jsnum \<Rightarrow> jsnum \<Rightarrow> bool" where
  "less_jsnum a b = (case (a, b) of (Num x, Num y) \<Rightarrow> x < y | _ \<Rightarrow> False)"

instance ..

end

text \<open>\<open>table[key] || dflt\<close> as an operand of arithmetic.\<close>

definition js_or_number :: "js_value \<Rightarrow> real \<Rightarrow> jsnum" where
  "js_or_number v dflt =
     (case v of
        Undefined \<Rightarrow> Num dflt
      | Number x \<Rightarrow> if x = 0 then Num dflt else Num x
      | Inherited \<Rightarrow> NaN)"

text \<open>\<open>Math.min\<close>, \<open>Math.round\<close> and \<open>Number(x.toFixed(2))\<close> give NaN for NaN.\<close>

definition Math_min_js :: "jsnum \<Rightarrow> jsnum \<Rightarrow> jsnum" where
  "Math_min_js a b = (case (a, b) of (Num x, Num y) \<Rightarrow> Num (min x y) | _ \<Rightarrow> NaN)"

definition Math_round_js :: "jsnum \<Rightarrow> jsnum" where
  "Math_round_js a = (case a of Num x \<Rightarrow> Num (of_int (Math_round x)) | NaN \<Rightarrow> NaN)"

definition round2_js :: "jsnum \<Rightarrow> jsnum" where
  "round2_js x = Math_round_js (x * Num 100) / Num 100"

definition toFixed2_js :: "jsnum \<Rightarrow> jsnum" where
  "toFixed2_js a = (case a of Num x \<Rightarrow> Num (toFixed2 x) | NaN \<Rightarrow> NaN)"

text \<open>The helper functions, their cash flow now a \<^typ>\<open>jsnum\<close>.\<close>

definition presentValueOfGrowingAnnuity_js :: "jsnum \<Rightarrow> real \<Rightarrow> real \<Rightarrow> nat \<Rightarrow> jsnum" where
  "presentValueOfGrowingAnnuity_js cashFlow growthRate discountRate periods =
     (if \<bar>growthRate - discountRate\<bar> < 1 / 10 ^ 9
      then cashFlow * Num (real periods) / Num ((1 + discountRate) ^ periods)
      else cashFlow *
             Num (((1 + growthRate) ^ periods - (1 + discountRate) ^ periods)
                    / (growthRate - discountRate))
             / Num ((1 + discountRate) ^ periods))"

definition presentValue_js :: "jsnum \<Rightarrow> real \<Rightarrow> nat \<Rightarrow> jsnum" where
  "presentValue_js cashFlow discountRate yearIndex =
     cashFlow / Num ((1 + discountRate) ^ yearIndex)"

definition calculateMonthlyCO2_js :: "real \<Rightarrow> string \<Rightarrow> jsnum" where
  "calculateMonthlyCO2_js dst ft =
     (let consumptionRate = js_or_number (js_get FUEL_CONSUMPTION ft) 9.0;
          monthlyLitres = (consumptionRate * Num dst) / Num 100.0;
          monthlyCO2 = monthlyLitres * Num CO2_PER_LITRE
      in monthlyCO2)"

definition carbonTaxLoop_js :: "jsnum \<Rightarrow> jsnum" where
  "carbonTaxLoop_js tonnesCo2 =
     fold (\<lambda>i acc.
             let year = currentYear + i;
                 rate = carbonTaxRate year;
                 annualCarbonCost = tonnesCo2 * Num rate
             in acc + presentValue_js annualCarbonCost DISCOUNT_RATE (i + 1))
          [0..<5] (Num 0.0)"

definition calculateStandardUpfrontBenefits_js ::
  "real \<Rightarrow> real \<Rightarrow> string \<Rightarrow> int \<Rightarrow> jsnum StandardUpfrontBenefits" where
  "calculateStandardUpfrontBenefits_js FUEL_INFLATION dst ft level =
     (let consumptionRate = js_or_number (js_get FUEL_CONSUMPTION ft) 9.0;
          monthlyLitres = (consumptionRate * Num dst) / Num 100.0;
          fuelPrice = js_or_number (js_get FUEL_PRICES ft) 21.62;
          monthlyFuelSpend = monthlyLitres * fuelPrice;
          baseRate = js_or (map_of BASE_EBUCKS level) 0.0;
          insuranceRate = js_or (map_of INSURANCE_RATES level) 0.0;
          financingRate = js_or (map_of FINANCING_RATES level) 0.0;
          totalRate = baseRate + insuranceRate + financingRate;
          effectiveFuelSpend = Math_min_js monthlyFuelSpend (Num MONTHLY_FUEL_SPEND_CAP);
          qualifyingLitres = effectiveFuelSpend / fuelPrice;
          year1Ebucks = Num totalRate * qualifyingLitres * Num 12;
          annualLitres = monthlyLitres * Num 12;
          annualTonnesCo2 = (annualLitres * Num CO2_PER_LITRE) / Num 1000.0;
          carbonTaxSavings = carbonTaxLoop_js annualTonnesCo2;
          pvEbucks = presentValueOfGrowingAnnuity_js year1Ebucks FUEL_INFLATION DISCOUNT_RATE 5;
          upfrontSavings = pvEbucks + carbonTaxSavings
      in \<lparr> std_presentValueEbucks = round2_js pvEbucks,
           std_carbonTaxSavings = round2_js carbonTaxSavings,
           std_upfrontSavings = round2_js upfrontSavings \<rparr>)"

text \<open>The local values that depend on the two tables.\<close>

definition consumptionRate_js :: "CalculationInput \<Rightarrow> jsnum" where
  "consumptionRate_js data = js_or_number (js_get FUEL_CONSUMPTION (fuelType data)) 9.0"

definition monthlyLitres_js :: "CalculationInput \<Rightarrow> jsnum" where
  "monthlyLitres_js data = (consumptionRate_js data * Num (distance data)) / Num 100.0"

definition fuelPrice_js :: "CalculationInput \<Rightarrow> jsnum" where
  "fuelPrice_js data = js_or_number (js_get FUEL_PRICES (fuelType data)) 21.62"

definition monthlyFuelSpend_js :: "CalculationInput \<Rightarrow> jsnum" where
  "monthlyFuelSpend_js data = monthlyLitres_js data * fuelPrice_js data"

definition effectiveFuelSpend_js :: "CalculationInput \<Rightarrow> jsnum" where
  "effectiveFuelSpend_js data =
     Math_min_js (monthlyFuelSpend_js data) (Num MONTHLY_FUEL_SPEND_CAP)"

definition qualifyingLitres_js :: "CalculationInput \<Rightarrow> jsnum" where
  "qualifyingLitres_js data = effectiveFuelSpend_js data / fuelPrice_js data"

definition year1Ebucks_js :: "CalculationInput \<Rightarrow> jsnum" where
  "year1Ebucks_js data = Num (totalRate data) * qualifyingLitres_js data * Num 12"

definition pvEbucks_js :: "real \<Rightarrow> CalculationInput \<Rightarrow> jsnum" where
  "pvEbucks_js FUEL_INFLATION data =
     presentValueOfGrowingAnnuity_js (year1Ebucks_js data) FUEL_INFLATION DISCOUNT_RATE 5"

definition annualLitres_js :: "CalculationInput \<Rightarrow> jsnum" where
  "annualLitres_js data = monthlyLitres_js data * Num 12"

definition annualTonnesCo2_js :: "CalculationInput \<Rightarrow> jsnum" where
  "annualTonnesCo2_js data = (annualLitres_js data * Num CO2_PER_LITRE) / Num 1000.0"

definition carbonTaxSavings_local_js :: "CalculationInput \<Rightarrow> jsnum" where
  "carbonTaxSavings_local_js data =
     (if \<not> hasNoBank data then carbonTaxLoop_js (annualTonnesCo2_js data) else Num 0.0)"

definition iceMonthlyEmissions_js :: "CalculationInput \<Rightarrow> jsnum" where
  "iceMonthlyEmissions_js data = calculateMonthlyCO2_js (distance data) (fuelType data)"

definition monthlyCO2Savings_js :: "CalculationInput \<Rightarrow> jsnum" where
  "monthlyCO2Savings_js data = iceMonthlyEmissions_js data - Num (evMonthlyEmissions data)"

definition yearlyCO2Savings_js :: "CalculationInput \<Rightarrow> jsnum" where
  "yearlyCO2Savings_js data = monthlyCO2Savings_js data * Num 12"

text \<open>The server's handler; \<open>calculate_response\<close> is what it passes to \<open>res.json\<close>.\<close>

definition year1FuelCost_js :: "CalculationInput \<Rightarrow> jsnum" where
  "year1FuelCost_js data = monthlyFuelSpend_js data * Num 12"

definition pvFuelCost_js :: "CalculationInput \<Rightarrow> jsnum" where
  "pvFuelCost_js data =
     fold (\<lambda>i acc.
             let costYear = year1FuelCost_js data * Num ((1 + FUEL_INFLATION_server) ^ i)
             in acc + presentValue_js costYear DISCOUNT_RATE (i + 1))
          [0..<loanTermYears_or_default data] (Num 0.0)"

definition calculate_response :: "CalculationInput \<Rightarrow> jsnum CalculationResult" where
  "calculate_response data =
     (let fuelSpendSavings = pvFuelCost_js data - Num (pvEvCost data);
          pvEbucks = pvEbucks_js FUEL_INFLATION_server data;
          carbonTaxSavings = carbonTaxSavings_local_js data;
          upfrontSavings = pvEbucks + carbonTaxSavings;
          loanTermSavings = fuelSpendSavings;
          totalSavings = upfrontSavings + loanTermSavings;
          standardUpfrontBenefits =
            calculateStandardUpfrontBenefits_js FUEL_INFLATION_server
              (distance data) (fuelType data) 4
      in \<lparr> presentValueEbucks = round2_js pvEbucks,
           carbonTaxSavings = round2_js carbonTaxSavings,
           fuelSpendSavings = round2_js loanTermSavings,
           upfrontSavings = round2_js upfrontSavings,
           totalSavings = round2_js totalSavings,
           standardUpfrontBenefits = standardUpfrontBenefits,
           co2Emissions =
             \<lparr> ice = round2_js (iceMonthlyEmissions_js data),
               ev = round2_js (Num (evMonthlyEmissions data)),
               monthlySavings = round2_js (monthlyCO2Savings_js data),
               yearlySavings = round2_js (yearlyCO2Savings_js data) \<rparr> \<rparr>)"

text \<open>The client's \<open>calculateSavings\<close>; \<open>calculateSavings_result\<close> is the object it returns.\<close>

definition calculateCumulativeCost_js :: "jsnum \<Rightarrow> real \<Rightarrow> nat \<Rightarrow> jsnum" where
  "calculateCumulativeCost_js monthlyBaseCost annualInflation months =
     fold (\<lambda>month total.
             let inflatedMonthlyCost =
                   monthlyBaseCost * Num ((1 + annualInflation) powr (real month / 12))
             in total + inflatedMonthlyCost)
          [0..<months] (Num 0)"

definition rawFuelSpendSavings_js :: "CalculationInput \<Rightarrow> jsnum" where
  "rawFuelSpendSavings_js data =
     (let totalMonths = loanTermYears_or_default data * 12;
          cumFuel =
            calculateCumulativeCost_js (monthlyFuelSpend_js data) FUEL_INFLATION_client totalMonths;
          cumCharge =
            calculateCumulativeCost_js (Num (monthlyChargingCost data)) ELECTRICITY_INFLATION
              totalMonths
      in toFixed2_js (cumFuel - cumCharge))"

definition calculateSavings_result :: "CalculationInput \<Rightarrow> jsnum CalculationResult" where
  "calculateSavings_result data =
     (let rawFuelSpendSavings = rawFuelSpendSavings_js data;
          fuelSpendSavings = rawFuelSpendSavings - Num (pvEvCost data);
          pvEbucks = pvEbucks_js FUEL_INFLATION_client data;
          carbonTaxSavings = carbonTaxSavings_local_js data;
          upfrontSavings = pvEbucks + carbonTaxSavings;
          loanTermSavings = fuelSpendSavings;
          totalSavings = upfrontSavings + loanTermSavings;
          standardUpfrontBenefits =
            calculateStandardUpfrontBenefits_js FUEL_INFLATION_client
              (distance data) (fuelType data) 4
      in \<lparr> presentValueEbucks = toFixed2_js pvEbucks,
           carbonTaxSavings = toFixed2_js carbonTaxSavings,
           fuelSpendSavings = rawFuelSpendSavings,
           upfrontSavings = toFixed2_js upfrontSavings,
           totalSavings = toFixed2_js (upfrontSavings + rawFuelSpendSavings),
           standardUpfrontBenefits =
             \<lparr> std_presentValueEbucks =
                 toFixed2_js (std_presentValueEbucks standardUpfrontBenefits),
               std_carbonTaxSavings = toFixed2_js (std_carbonTaxSavings standardUpfrontBenefits),
               std_upfrontSavings = toFixed2_js (std_upfrontSavings standardUpfrontBenefits) \<rparr>,
           co2Emissions =
             \<lparr> ice = toFixed2_js (iceMonthlyEmissions_js data),
               ev = toFixed2_js (Num (evMonthlyEmissions data)),
               monthlySavings = toFixed2_js (monthlyCO2Savings_js data),
               yearlySavings = toFixed2_js (yearlyCO2Savings_js data) \<rparr> \<rparr>)"

text \<open>The sample request with an inherited key for its fuel type and no bank affiliation.\<close>

definition toString_request :: CalculationInput where
  "toString_request = sample_request\<lparr>fuelType := ''toString'', hasNoBank := True\<rparr>"

section \<open>Rounding\<close>

lemma round2_zero: "round2 0 = 0"
  by (simp add: round2_def Math_round_def)

lemma toFixed2_zero: "toFixed2 0 = 0"
  by (simp add: toFixed2_def)

lemma floor_half_close: "\<bar>of_int \<lfloor>z + 1 / 2\<rfloor> - z\<bar> \<le> 1 / (2::real)"
  by linarith

text \<open>Three integers, each within a half of a real, the third real being the sum of the others.\<close>

lemma int_close_sum:
  fixes i j k :: int and x y :: real
  assumes "\<bar>of_int i - x\<bar> \<le> 1 / 2" and "\<bar>of_int j - y\<bar> \<le> 1 / 2"
    and "\<bar>of_int k - (x + y)\<bar> \<le> 1 / 2"
  shows "\<bar>real_of_int k - (real_of_int i + real_of_int j)\<bar> \<le> 1"
proof -
  have "real_of_int k - (real_of_int i + real_of_int j) < 2"
    using assms by linarith
  then have "real_of_int (k - (i + j)) < real_of_int 2" by simp
  then have up: "k - (i + j) < 2" by (simp only: of_int_less_iff)
  have "(real_of_int i + real_of_int j) - real_of_int k < 2"
    using assms by linarith
  then have "real_of_int ((i + j) - k) < real_of_int 2" by simp
  then have "(i + j) - k < 2" by (simp only: of_int_less_iff)
  with up have "\<bar>k - (i + j)\<bar> \<le> 1" by linarith
  then have "real_of_int \<bar>k - (i + j)\<bar> \<le> real_of_int 1" by (simp only: of_int_le_iff)
  then show ?thesis by simp
qed

lemma round2_add: "\<bar>round2 (x + y) - (round2 x + round2 y)\<bar> \<le> 1 / 100"
proof -
  define i where "i = \<lfloor>x * 100 + 1 / 2\<rfloor>"
  define j where "j = \<lfloor>y * 100 + 1 / 2\<rfloor>"
  define k where "k = \<lfloor>(x + y) * 100 + 1 / 2\<rfloor>"
  have "\<bar>of_int i - x * 100\<bar> \<le> 1 / 2" "\<bar>of_int j - y * 100\<bar> \<le> 1 / 2"
    unfolding i_def j_def by (rule floor_half_close)+
  moreover have "\<bar>of_int k - (x * 100 + y * 100)\<bar> \<le> 1 / 2"
    using floor_half_close[of "(x + y) * 100"] unfolding k_def by (simp add: algebra_simps)
  ultimately have "\<bar>real_of_int k - (real_of_int i + real_of_int j)\<bar> \<le> 1"
    by (rule int_close_sum)
  then show ?thesis
    unfolding round2_def Math_round_def i_def[symmetric] j_def[symmetric] k_def[symmetric]
    by (simp add: field_simps)
qed

text \<open>\<open>toFixed2\<close> either returns its argument or a multiple of 1/100 next to it.\<close>

lemma toFixed2_shape:
  "toFixed2 x = x \<or> (\<exists>k::int. toFixed2 x = of_int k / 100 \<and> \<bar>of_int k - x * 100\<bar> \<le> 1 / 2)"
proof (cases "toFixed2 x = x")
  case True
  then show ?thesis by simp
next
  case False
  show ?thesis
  proof (cases "x < 0")
    case True
    with False have eq: "toFixed2 x = - (of_int \<lfloor>(- x) * 100 + 1 / 2\<rfloor> / 100)"
      by (simp add: toFixed2_def split: if_splits)
    have "toFixed2 x = of_int (- \<lfloor>(- x) * 100 + 1 / 2\<rfloor>) / 100" using eq by simp
    moreover have "\<bar>of_int (- \<lfloor>(- x) * 100 + 1 / 2\<rfloor>) - x * 100\<bar> \<le> 1 / 2"
      using floor_half_close[of "(- x) * 100"] by linarith
    ultimately show ?thesis by blast
  next
    case nonneg: False
    with False have eq: "toFixed2 x = of_int \<lfloor>x * 100 + 1 / 2\<rfloor> / 100"
      by (simp add: toFixed2_def split: if_splits)
    moreover have "\<bar>of_int \<lfloor>x * 100 + 1 / 2\<rfloor> - x * 100\<bar> \<le> 1 / 2"
      by (rule floor_half_close)
    ultimately show ?thesis by blast
  qed
qed

lemma toFixed2_err: "\<bar>toFixed2 x - x\<bar> \<le> 1 / 200"
  using toFixed2_shape[of x]
proof
  assume "toFixed2 x = x" then show ?thesis by simp
next
  assume "\<exists>k::int. toFixed2 x = of_int k / 100 \<and> \<bar>of_int k - x * 100\<bar> \<le> 1 / 2"
  then obtain k :: int where k: "toFixed2 x = of_int k / 100" "\<bar>of_int k - x * 100\<bar> \<le> 1 / 2"
    by blast
  have "of_int k = toFixed2 x * 100" using k(1) by simp
  with k(2) have "\<bar>toFixed2 x * 100 - x * 100\<bar> \<le> 1 / 2" by (simp only:)
  then show ?thesis by linarith
qed

lemma toFixed2_add: "\<bar>toFixed2 (x + y) - (toFixed2 x + toFixed2 y)\<bar> \<le> 1 / 100"
proof -
  note ex = toFixed2_err[of x] and ey = toFixed2_err[of y] and es = toFixed2_err[of "x + y"]
  consider (exact) "toFixed2 x = x \<or> toFixed2 y = y \<or> toFixed2 (x + y) = x + y"
    | (grid) i j k :: int where
        "toFixed2 x = of_int i / 100" "\<bar>of_int i - x * 100\<bar> \<le> 1 / 2"
        "toFixed2 y = of_int j / 100" "\<bar>of_int j - y * 100\<bar> \<le> 1 / 2"
        "toFixed2 (x + y) = of_int k / 100" "\<bar>of_int k - (x + y) * 100\<bar> \<le> 1 / 2"
    using toFixed2_shape[of x] toFixed2_shape[of y] toFixed2_shape[of "x + y"] by blast
  then show ?thesis
  proof cases
    case exact
    then show ?thesis using ex ey es by linarith
  next
    case grid
    have "\<bar>of_int k - (x * 100 + y * 100)\<bar> \<le> 1 / 2" using grid(6) by (simp add: algebra_simps)
    with grid(2,4) have "\<bar>real_of_int k - (real_of_int i + real_of_int j)\<bar> \<le> 1"
      by (rule int_close_sum)
    then show ?thesis unfolding grid(1,3,5) by (simp add: field_simps)
  qed
qed

lemma toFixed2_add_fixed: "\<bar>toFixed2 (x + r) - (toFixed2 x + r)\<bar> \<le> 1 / 100"
  using toFixed2_err[of x] toFixed2_err[of "x + r"] by linarith

section \<open>Loops as sums\<close>

lemma fold_add_sum_list:
  "fold (\<lambda>i acc. acc + f i) xs (a::real) = a + sum_list (map f xs)"
  by (induction xs arbitrary: a) (simp_all add: algebra_simps)

lemma fold_add_upt: "fold (\<lambda>i acc. acc + f i) [0..<n] (0::real) = (\<Sum>i<n. f i)"
  by (simp add: fold_add_sum_list interv_sum_list_conv_sum_set_nat atLeast0LessThan)

lemma carbonTaxLoop_sum:
  "carbonTaxLoop t =
     (\<Sum>i<5. t * carbonTaxRate (2025 + i) / (1 + DISCOUNT_RATE) ^ (i + 1))"
  unfolding carbonTaxLoop_def Let_def presentValue_def currentYear_def
  by (rule fold_add_upt)

lemma carbonTaxSavings_local_sum:
  "carbonTaxSavings_local data =
     (if hasNoBank data then 0
      else (\<Sum>i<5. annualTonnesCo2 data * carbonTaxRate (2025 + i)
                      / (1 + DISCOUNT_RATE) ^ (i + 1)))"
  by (simp add: carbonTaxSavings_local_def carbonTaxLoop_sum)

section \<open>Zero rewards\<close>

lemma pvga_zero: "presentValueOfGrowingAnnuity 0 g d n = 0"
  by (simp add: presentValueOfGrowingAnnuity_def)

lemma totalRate_noBank: "hasNoBank data \<Longrightarrow> totalRate data = 0"
  by (simp add: totalRate_def baseRate_def insuranceRate_def financingRate_def)

lemma pvEbucks_noBank: "hasNoBank data \<Longrightarrow> pvEbucks fi data = 0"
  by (simp add: pvEbucks_def year1Ebucks_def totalRate_noBank pvga_zero)

lemma carbon_noBank: "hasNoBank data \<Longrightarrow> carbonTaxSavings_local data = 0"
  by (simp add: carbonTaxSavings_local_def)

section \<open>Fields that a flag does not reach\<close>

lemma locals_noBank_frame:
  "loanTermYears_or_default (data\<lparr>hasNoBank := v\<rparr>) = loanTermYears_or_default data"
  "monthlyFuelSpend (data\<lparr>hasNoBank := v\<rparr>) = monthlyFuelSpend data"
  "pvEvCost (data\<lparr>hasNoBank := v\<rparr>) = pvEvCost data"
  "monthlyChargingCost (data\<lparr>hasNoBank := v\<rparr>) = monthlyChargingCost data"
  "iceMonthlyEmissions (data\<lparr>hasNoBank := v\<rparr>) = iceMonthlyEmissions data"
  "evMonthlyEmissions (data\<lparr>hasNoBank := v\<rparr>) = evMonthlyEmissions data"
  by (simp_all add: loanTermYears_or_default_def monthlyFuelSpend_def monthlyLitres_def
      consumptionRate_def fuelPrice_def pvEvCost_def annualEvCost_def monthlyChargingCost_def
      iceMonthlyEmissions_def evMonthlyEmissions_def)

lemma pvFuelCost_noBank_frame: "pvFuelCost (data\<lparr>hasNoBank := v\<rparr>) = pvFuelCost data"
  by (simp add: pvFuelCost_def year1FuelCost_def locals_noBank_frame)

lemma raw_noBank_frame:
  "rawFuelSpendSavings (data\<lparr>hasNoBank := v\<rparr>) = rawFuelSpendSavings data"
  by (simp add: rawFuelSpendSavings_def locals_noBank_frame)

lemma calculate_noBank_frame:
  "fuelSpendSavings (calculate (data\<lparr>hasNoBank := v\<rparr>)) = fuelSpendSavings (calculate data)"
  "standardUpfrontBenefits (calculate (data\<lparr>hasNoBank := v\<rparr>)) =
     standardUpfrontBenefits (calculate data)"
  "co2Emissions (calculate (data\<lparr>hasNoBank := v\<rparr>)) = co2Emissions (calculate data)"
  by (simp_all add: calculate_def Let_def locals_noBank_frame pvFuelCost_noBank_frame
      monthlyCO2Savings_def yearlyCO2Savings_def)

lemma calculateSavings_noBank_frame:
  "fuelSpendSavings (calculateSavings (data\<lparr>hasNoBank := v\<rparr>)) =
     fuelSpendSavings (calculateSavings data)"
  "standardUpfrontBenefits (calculateSavings (data\<lparr>hasNoBank := v\<rparr>)) =
     standardUpfrontBenefits (calculateSavings data)"
  "co2Emissions (calculateSavings (data\<lparr>hasNoBank := v\<rparr>)) =
     co2Emissions (calculateSavings data)"
  by (simp_all add: calculateSavings_def Let_def locals_noBank_frame raw_noBank_frame
      monthlyCO2Savings_def yearlyCO2Savings_def)

lemma locals_term_frame:
  "annualTonnesCo2 (data\<lparr>loanTermYears := n\<rparr>) = annualTonnesCo2 data"
  "year1Ebucks (data\<lparr>loanTermYears := n\<rparr>) = year1Ebucks data"
  by (simp_all add: annualTonnesCo2_def annualLitres_def monthlyLitres_def consumptionRate_def
      year1Ebucks_def totalRate_def baseRate_def insuranceRate_def financingRate_def
      qualifyingLitres_def effectiveFuelSpend_def monthlyFuelSpend_def fuelPrice_def)

lemma upfront_term_frame:
  "pvEbucks fi (data\<lparr>loanTermYears := n\<rparr>) = pvEbucks fi data"
  "carbonTaxSavings_local (data\<lparr>loanTermYears := n\<rparr>) = carbonTaxSavings_local data"
  by (simp_all add: pvEbucks_def carbonTaxSavings_local_def locals_term_frame)

section \<open>The standard benefits are the caller's own at the reference scenario\<close>

lemma standard_is_own_scenario:
  assumes "hasInsurance data" and "hasFinancing data" and "\<not> hasNoBank data"
  shows "calculateStandardUpfrontBenefits fi (distance data) (fuelType data) (ebucksLevel data) =
     \<lparr> std_presentValueEbucks = round2 (pvEbucks fi data),
       std_carbonTaxSavings = round2 (carbonTaxSavings_local data),
       std_upfrontSavings = round2 (pvEbucks fi data + carbonTaxSavings_local data) \<rparr>"
  using assms
  unfolding calculateStandardUpfrontBenefits_def Let_def pvEbucks_def
      carbonTaxSavings_local_def annualTonnesCo2_def annualLitres_def year1Ebucks_def
      totalRate_def baseRate_def insuranceRate_def
      financingRate_def qualifyingLitres_def effectiveFuelSpend_def monthlyFuelSpend_def
      monthlyLitres_def consumptionRate_def fuelPrice_def
  by (simp only: if_True if_False not_False_eq_True)

lemma standard_is_reference:
  "calculateStandardUpfrontBenefits fi (distance data) (fuelType data) 4 =
     \<lparr> std_presentValueEbucks =
         round2 (pvEbucks fi (data\<lparr>ebucksLevel := 4, hasInsurance := True,
                                   hasFinancing := True, hasNoBank := False\<rparr>)),
       std_carbonTaxSavings =
         round2 (carbonTaxSavings_local (data\<lparr>ebucksLevel := 4, hasInsurance := True,
                                   hasFinancing := True, hasNoBank := False\<rparr>)),
       std_upfrontSavings =
         round2 (pvEbucks fi (data\<lparr>ebucksLevel := 4, hasInsurance := True,
                                   hasFinancing := True, hasNoBank := False\<rparr>)
                 + carbonTaxSavings_local (data\<lparr>ebucksLevel := 4, hasInsurance := True,
                                   hasFinancing := True, hasNoBank := False\<rparr>)) \<rparr>"
  using standard_is_own_scenario[of "data\<lparr>ebucksLevel := 4, hasInsurance := True,
                                   hasFinancing := True, hasNoBank := False\<rparr>" fi]
  by simp

section \<open>The level stream, the fuel loop and the cumulative cost as sums\<close>

lemma fold_add_sum_list':
  "fold (\<lambda>b a. a + b) xs (a::real) = a + sum_list xs"
  by (induction xs arbitrary: a) (simp_all add: algebra_simps)

lemma pvLevelStream_sum:
  "pvLevelStream c n = (\<Sum>i<n. presentValue c DISCOUNT_RATE (i + 1))"
  by (simp add: pvLevelStream_def fold_add_sum_list' interv_sum_list_conv_sum_set_nat
      atLeast0LessThan)

lemma pvEvCost_sum:
  "pvEvCost data =
     (\<Sum>i<loanTermYears_or_default data.
        presentValue (if hasSolar data then annualEvCost data * 0.1 else annualEvCost data)
          DISCOUNT_RATE (i + 1))"
  by (simp add: pvEvCost_def Let_def pvLevelStream_sum)

lemma pvFuelCost_pv_sum:
  "pvFuelCost data =
     (\<Sum>i<loanTermYears_or_default data.
        presentValue (year1FuelCost data * (1 + FUEL_INFLATION_server) ^ i) DISCOUNT_RATE (i + 1))"
  unfolding pvFuelCost_def Let_def by (rule fold_add_upt)

lemma calculateCumulativeCost_sum:
  "calculateCumulativeCost c r m = (\<Sum>month<m. c * (1 + r) powr (real month / 12))"
  unfolding calculateCumulativeCost_def Let_def by (rule fold_add_upt)

lemma calculateCumulativeCost_lower:
  assumes "0 \<le> c" and "0 \<le> r"
  shows "c * real m \<le> calculateCumulativeCost c r m"
proof -
  have "(\<Sum>month<m. c) \<le> (\<Sum>month<m. c * (1 + r) powr (real month / 12))"
  proof (rule sum_mono)
    fix month
    have "1 \<le> (1 + r) powr (real month / 12)"
      using assms(2) by (intro ge_one_powr_ge_zero) simp_all
    then show "c \<le> c * (1 + r) powr (real month / 12)"
      using assms(1) by (simp add: mult_le_cancel_left1)
  qed
  then show ?thesis by (simp add: calculateCumulativeCost_sum mult.commute)
qed

lemma calculateCumulativeCost_upper:
  assumes "0 \<le> c" and "0 \<le> r" and "m \<le> 12"
  shows "calculateCumulativeCost c r m \<le> c * (1 + r) * real m"
proof -
  have "(\<Sum>month<m. c * (1 + r) powr (real month / 12)) \<le> (\<Sum>month<m. c * (1 + r))"
  proof (rule sum_mono)
    fix month assume "month \<in> {..<m}"
    then have "real month / 12 \<le> 1" using assms(3) by simp
    then have "(1 + r) powr (real month / 12) \<le> (1 + r) powr 1"
      using assms(2) by (intro powr_mono) simp_all
    then have "(1 + r) powr (real month / 12) \<le> 1 + r" using assms(2) by simp
    then show "c * (1 + r) powr (real month / 12) \<le> c * (1 + r)"
      using assms(1) by (rule mult_left_mono)
  qed
  then show ?thesis by (simp add: calculateCumulativeCost_sum mult.commute)
qed

lemma sample_one_year:
  "loanTermYears_or_default (sample_request\<lparr>loanTermYears := 1\<rparr>) = 1"
  "monthlyFuelSpend (sample_request\<lparr>loanTermYears := 1\<rparr>) = 29187 / 10"
  "monthlyChargingCost (sample_request\<lparr>loanTermYears := 1\<rparr>) = 1142505 / 1000"
  "year1FuelCost (sample_request\<lparr>loanTermYears := 1\<rparr>) = 350244 / 10"
  "annualEvCost (sample_request\<lparr>loanTermYears := 1\<rparr>) = 1371006 / 100"
  "hasSolar (sample_request\<lparr>loanTermYears := 1\<rparr>) = False"
  by (simp_all add: sample_request_def loanTermYears_or_default_def
      year1FuelCost_def monthlyFuelSpend_def monthlyLitres_def consumptionRate_def fuelPrice_def
      FUEL_CONSUMPTION_def FUEL_PRICES_def js_or_def annualEvCost_def EV_CONSUMPTION_def
      ESKOM_RATE_def STANDARD_ESKOM_RATE_def PREMIUM_ESKOM_RATE_def monthlyChargingCost_def)

section \<open>The closed form of a growing stream\<close>

lemma geometric_stream:
  fixes cf G D :: real
  assumes "G \<noteq> D" and "D \<noteq> 0"
  shows "(\<Sum>i<n. cf * G ^ i / D ^ (i + 1)) = cf * ((G ^ n - D ^ n) / (G - D)) / D ^ n"
proof (induction n)
  case 0
  show ?case by simp
next
  case (Suc n)
  have gd: "G - D \<noteq> 0" using assms by simp
  have "(\<Sum>i<Suc n. cf * G ^ i / D ^ (i + 1)) =
        cf * ((G ^ n - D ^ n) / (G - D)) / D ^ n + cf * G ^ n / D ^ (n + 1)"
    using Suc.IH by simp
  also have "\<dots> = cf * ((G ^ Suc n - D ^ Suc n) / (G - D)) / D ^ Suc n"
    using gd assms(2) by (simp add: field_simps)
  finally show ?case .
qed

lemma growing_stream_closed_form:
  fixes cf g d :: real
  assumes "g \<noteq> d" and "1 + d \<noteq> 0"
  shows "(\<Sum>i<n. cf * (1 + g) ^ i / (1 + d) ^ (i + 1)) =
         cf * (((1 + g) ^ n - (1 + d) ^ n) / (g - d)) / (1 + d) ^ n"
proof -
  have "1 + g \<noteq> 1 + d" using assms(1) by simp
  from geometric_stream[OF this assms(2), where n = n and cf = cf] show ?thesis by simp
qed

lemma pvFuelCost_sum:
  "pvFuelCost data =
     (\<Sum>i<loanTermYears_or_default data.
        year1FuelCost data * (1 + FUEL_INFLATION_server) ^ i / (1 + DISCOUNT_RATE) ^ (i + 1))"
  unfolding pvFuelCost_def Let_def presentValue_def by (rule fold_add_upt)

section \<open>The reward cap\<close>

lemma fuelPrice_distance_frame: "fuelPrice (data\<lparr>distance := x\<rparr>) = fuelPrice data"
  by (simp add: fuelPrice_def)

lemma totalRate_distance_frame: "totalRate (data\<lparr>distance := x\<rparr>) = totalRate data"
  by (simp add: totalRate_def baseRate_def insuranceRate_def financingRate_def)

lemma qualifyingLitres_capped:
  "3000 \<le> monthlyFuelSpend data \<Longrightarrow> qualifyingLitres data = 3000 / fuelPrice data"
  by (simp add: qualifyingLitres_def effectiveFuelSpend_def MONTHLY_FUEL_SPEND_CAP_def min_def)

lemma sample_spend: "monthlyFuelSpend (sample_request\<lparr>distance := x\<rparr>) = x * 9729 / 5000"
  by (simp add: monthlyFuelSpend_def monthlyLitres_def consumptionRate_def fuelPrice_def
      sample_request_def FUEL_CONSUMPTION_def FUEL_PRICES_def js_or_def)

section \<open>Rounding keeps order\<close>

lemma toFixed2_nonneg_small:
  "0 \<le> x \<Longrightarrow> x < 10 ^ 21 \<Longrightarrow> toFixed2 x = round2 x"
  by (simp add: toFixed2_def round2_def Math_round_def)

lemma round2_pos: "1 / 200 \<le> x \<Longrightarrow> 0 < round2 x"
proof -
  assume "1 / 200 \<le> x"
  then have "1 \<le> x * 100 + 1 / 2" by simp
  then have "1 \<le> \<lfloor>x * 100 + 1 / 2\<rfloor>" by (simp add: le_floor_iff)
  then show ?thesis by (simp add: round2_def Math_round_def)
qed

lemma round2_strict: "x + 1 / 100 \<le> y \<Longrightarrow> round2 x < round2 y"
proof -
  assume "x + 1 / 100 \<le> y"
  then have "(x * 100 + 1 / 2) + 1 \<le> y * 100 + 1 / 2" by simp
  then have "\<lfloor>(x * 100 + 1 / 2) + 1\<rfloor> \<le> \<lfloor>y * 100 + 1 / 2\<rfloor>" by (rule floor_mono)
  moreover have "\<lfloor>(x * 100 + 1 / 2) + 1\<rfloor> = \<lfloor>x * 100 + 1 / 2\<rfloor> + 1" using floor_add_int[of "x * 100 + 1 / 2" 1] by simp
  ultimately have "\<lfloor>x * 100 + 1 / 2\<rfloor> < \<lfloor>y * 100 + 1 / 2\<rfloor>" by linarith
  then show ?thesis by (simp add: round2_def Math_round_def divide_strict_right_mono)
qed

lemma toFixed2_pos: "1 / 200 \<le> x \<Longrightarrow> 0 < toFixed2 x"
proof (cases "x < 10 ^ 21")
  case True
  assume "1 / 200 \<le> x"
  with True show ?thesis using round2_pos[of x] by (simp add: toFixed2_nonneg_small)
next
  case False
  then show ?thesis by (simp add: toFixed2_def)
qed

lemma toFixed2_strict:
  assumes "0 \<le> x" and "x + 1 / 100 \<le> y"
  shows "toFixed2 x < toFixed2 y"
proof (cases "y < 10 ^ 21")
  case True
  with assms show ?thesis using round2_strict[of x y] by (simp add: toFixed2_nonneg_small)
next
  case False
  then have y: "toFixed2 y = y" using assms by (simp add: toFixed2_def)
  have "toFixed2 x \<le> x + 1 / 200" using toFixed2_err[of x] by linarith
  then show ?thesis using y assms by linarith
qed

lemma ev_emissions_values:
  "evMonthlyEmissions (data\<lparr>hasSolar := True\<rparr>) = distance data * 1701 / 100000"
  "evMonthlyEmissions (data\<lparr>hasSolar := False\<rparr>) = distance data * 1701 / 10000"
  by (simp_all add: evMonthlyEmissions_def EV_CONSUMPTION_def CO2_SOLAR_def CO2_GRID_def)

section \<open>The calculation with NaN\<close>

text \<open>
  For a fuel type that is no inherited key every field of \<open>calculate_response\<close> and of
  \<open>calculateSavings_result\<close> is the number that \<open>calculate\<close> and \<open>calculateSavings\<close>
  give; for an inherited key the reward value, the upfront savings and the total are NaN.
\<close>

lemma jsnum_arith:
  "Num x + Num y = Num (x + y)" "Num x - Num y = Num (x - y)"
  "Num x * Num y = Num (x * y)" "Num x / Num y = Num (x / y)"
  "NaN + a = NaN" "a + NaN = NaN" "NaN - a = NaN" "a - NaN = NaN"
  "NaN * a = NaN" "a * NaN = NaN" "NaN / a = NaN" "a / NaN = NaN"
  by (simp_all add: plus_jsnum_def minus_jsnum_def times_jsnum_def divide_jsnum_def
      split: jsnum.splits)

lemma jsnum_compare:
  "(Num x \<le> Num y) = (x \<le> y)" "(Num x < Num y) = (x < y)"
  "\<not> NaN \<le> a" "\<not> a \<le> NaN" "\<not> NaN < a" "\<not> a < NaN"
  "\<bar>Num x\<bar> = Num \<bar>x\<bar>" "\<bar>NaN\<bar> = NaN"
  by (simp_all add: less_eq_jsnum_def less_jsnum_def abs_jsnum_def split: jsnum.splits)

lemma jsnum_functions:
  "Math_min_js (Num x) (Num y) = Num (min x y)" "Math_min_js NaN a = NaN" "Math_min_js a NaN = NaN"
  "round2_js (Num x) = Num (round2 x)" "round2_js NaN = NaN"
  "toFixed2_js (Num x) = Num (toFixed2 x)" "toFixed2_js NaN = NaN"
  "presentValue_js (Num x) d n = Num (presentValue x d n)" "presentValue_js NaN d n = NaN"
  "presentValueOfGrowingAnnuity_js (Num x) g d n = Num (presentValueOfGrowingAnnuity x g d n)"
  "presentValueOfGrowingAnnuity_js NaN g d n = NaN"
  by (simp_all add: Math_min_js_def round2_js_def Math_round_js_def round2_def toFixed2_js_def
      presentValue_js_def presentValue_def presentValueOfGrowingAnnuity_js_def
      presentValueOfGrowingAnnuity_def jsnum_arith split: jsnum.splits)

lemma fold_add_Num:
  "fold (\<lambda>i acc. acc + Num (f i)) xs (Num a) = Num (fold (\<lambda>i acc. acc + f i) xs a)"
  by (induction xs arbitrary: a) (simp_all add: jsnum_arith)

subsection \<open>A fuel type that is no inherited key\<close>

lemma js_or_number_plain:
  "key \<notin> set Object_prototype_keys \<Longrightarrow>
     js_or_number (js_get table key) dflt = Num (js_or (map_of table key) dflt)"
  by (simp add: js_or_number_def js_get_def js_or_def split: option.splits)

lemma locals_plain:
  assumes "fuelType data \<notin> set Object_prototype_keys"
  shows "consumptionRate_js data = Num (consumptionRate data)"
    and "fuelPrice_js data = Num (fuelPrice data)"
    and "monthlyLitres_js data = Num (monthlyLitres data)"
    and "monthlyFuelSpend_js data = Num (monthlyFuelSpend data)"
    and "year1FuelCost_js data = Num (year1FuelCost data)"
    and "effectiveFuelSpend_js data = Num (effectiveFuelSpend data)"
    and "qualifyingLitres_js data = Num (qualifyingLitres data)"
    and "year1Ebucks_js data = Num (year1Ebucks data)"
    and "pvEbucks_js fi data = Num (pvEbucks fi data)"
    and "annualLitres_js data = Num (annualLitres data)"
    and "annualTonnesCo2_js data = Num (annualTonnesCo2 data)"
    and "iceMonthlyEmissions_js data = Num (iceMonthlyEmissions data)"
    and "monthlyCO2Savings_js data = Num (monthlyCO2Savings data)"
    and "yearlyCO2Savings_js data = Num (yearlyCO2Savings data)"
proof -
  show c: "consumptionRate_js data = Num (consumptionRate data)"
    by (simp only: consumptionRate_js_def consumptionRate_def js_or_number_plain[OF assms])
  show p: "fuelPrice_js data = Num (fuelPrice data)"
    by (simp only: fuelPrice_js_def fuelPrice_def js_or_number_plain[OF assms])
  show l: "monthlyLitres_js data = Num (monthlyLitres data)"
    by (simp only: monthlyLitres_js_def monthlyLitres_def c jsnum_arith)
  show s: "monthlyFuelSpend_js data = Num (monthlyFuelSpend data)"
    by (simp only: monthlyFuelSpend_js_def monthlyFuelSpend_def l p jsnum_arith)
  show "year1FuelCost_js data = Num (year1FuelCost data)"
    by (simp only: year1FuelCost_js_def year1FuelCost_def s jsnum_arith)
  show e: "effectiveFuelSpend_js data = Num (effectiveFuelSpend data)"
    by (simp only: effectiveFuelSpend_js_def effectiveFuelSpend_def s jsnum_functions)
  show q: "qualifyingLitres_js data = Num (qualifyingLitres data)"
    by (simp only: qualifyingLitres_js_def qualifyingLitres_def e p jsnum_arith)
  show y: "year1Ebucks_js data = Num (year1Ebucks data)"
    by (simp only: year1Ebucks_js_def year1Ebucks_def q jsnum_arith)
  show "pvEbucks_js fi data = Num (pvEbucks fi data)"
    by (simp only: pvEbucks_js_def pvEbucks_def y jsnum_functions)
  show al: "annualLitres_js data = Num (annualLitres data)"
    by (simp only: annualLitres_js_def annualLitres_def l jsnum_arith)
  show "annualTonnesCo2_js data = Num (annualTonnesCo2 data)"
    by (simp only: annualTonnesCo2_js_def annualTonnesCo2_def al jsnum_arith)
  show i: "iceMonthlyEmissions_js data = Num (iceMonthlyEmissions data)"
    by (simp only: iceMonthlyEmissions_js_def iceMonthlyEmissions_def calculateMonthlyCO2_js_def
        calculateMonthlyCO2_def Let_def js_or_number_plain[OF assms] jsnum_arith)
  show m: "monthlyCO2Savings_js data = Num (monthlyCO2Savings data)"
    by (simp only: monthlyCO2Savings_js_def monthlyCO2Savings_def i jsnum_arith)
  show "yearlyCO2Savings_js data = Num (yearlyCO2Savings data)"
    by (simp only: yearlyCO2Savings_js_def yearlyCO2Savings_def m jsnum_arith)
qed

lemma carbonTaxLoop_js_Num: "carbonTaxLoop_js (Num t) = Num (carbonTaxLoop t)"
  unfolding carbonTaxLoop_js_def carbonTaxLoop_def Let_def jsnum_arith jsnum_functions
  by (simp add: fold_add_Num)

lemma calculateCumulativeCost_js_Num:
  "calculateCumulativeCost_js (Num c) r m = Num (calculateCumulativeCost c r m)"
  unfolding calculateCumulativeCost_js_def calculateCumulativeCost_def Let_def jsnum_arith
  by (simp add: fold_add_Num)

lemma loops_plain:
  assumes "fuelType data \<notin> set Object_prototype_keys"
  shows "carbonTaxSavings_local_js data = Num (carbonTaxSavings_local data)"
    and "pvFuelCost_js data = Num (pvFuelCost data)"
    and "rawFuelSpendSavings_js data = Num (rawFuelSpendSavings data)"
proof -
  show "carbonTaxSavings_local_js data = Num (carbonTaxSavings_local data)"
    by (simp add: carbonTaxSavings_local_js_def carbonTaxSavings_local_def
        locals_plain(11)[OF assms] carbonTaxLoop_js_Num)
  show "pvFuelCost_js data = Num (pvFuelCost data)"
    unfolding pvFuelCost_js_def pvFuelCost_def Let_def locals_plain(5)[OF assms]
      jsnum_arith jsnum_functions
    by (simp add: fold_add_Num)
  show "rawFuelSpendSavings_js data = Num (rawFuelSpendSavings data)"
    by (simp only: rawFuelSpendSavings_js_def rawFuelSpendSavings_def Let_def
        locals_plain(4)[OF assms] calculateCumulativeCost_js_Num jsnum_arith jsnum_functions)
qed

lemma response_plain:
  assumes "fuelType data \<notin> set Object_prototype_keys"
  shows "presentValueEbucks (calculate_response data) = Num (presentValueEbucks (calculate data))"
    and "carbonTaxSavings (calculate_response data) = Num (carbonTaxSavings (calculate data))"
    and "fuelSpendSavings (calculate_response data) = Num (fuelSpendSavings (calculate data))"
    and "upfrontSavings (calculate_response data) = Num (upfrontSavings (calculate data))"
    and "totalSavings (calculate_response data) = Num (totalSavings (calculate data))"
  by (simp_all only: calculate_response_def calculate_def Let_def CalculationResult.simps
      locals_plain[OF assms] loops_plain[OF assms] jsnum_arith jsnum_functions)

lemma result_plain:
  assumes "fuelType data \<notin> set Object_prototype_keys"
  shows "presentValueEbucks (calculateSavings_result data) =
           Num (presentValueEbucks (calculateSavings data))"
    and "carbonTaxSavings (calculateSavings_result data) =
           Num (carbonTaxSavings (calculateSavings data))"
    and "fuelSpendSavings (calculateSavings_result data) =
           Num (fuelSpendSavings (calculateSavings data))"
    and "upfrontSavings (calculateSavings_result data) =
           Num (upfrontSavings (calculateSavings data))"
    and "totalSavings (calculateSavings_result data) =
           Num (totalSavings (calculateSavings data))"
  by (simp_all only: calculateSavings_result_def calculateSavings_def Let_def
      CalculationResult.simps locals_plain[OF assms] loops_plain[OF assms] jsnum_arith
      jsnum_functions)

subsection \<open>A fuel type that is an inherited key\<close>

lemma js_or_number_inherited:
  assumes "key \<in> set Object_prototype_keys"
  shows "js_or_number (js_get FUEL_CONSUMPTION key) dflt = NaN"
    and "js_or_number (js_get FUEL_PRICES key) dflt = NaN"
proof -
  have "map_of FUEL_CONSUMPTION key = None" "map_of FUEL_PRICES key = None"
    using assms by (auto simp: Object_prototype_keys_def FUEL_CONSUMPTION_def FUEL_PRICES_def)
  then show "js_or_number (js_get FUEL_CONSUMPTION key) dflt = NaN"
    and "js_or_number (js_get FUEL_PRICES key) dflt = NaN"
    using assms by (simp_all add: js_get_def js_or_number_def)
qed

lemma pvEbucks_js_inherited:
  assumes "fuelType data \<in> set Object_prototype_keys"
  shows "pvEbucks_js fi data = NaN"
  by (simp add: pvEbucks_js_def year1Ebucks_js_def qualifyingLitres_js_def fuelPrice_js_def
      js_or_number_inherited[OF assms] jsnum_arith jsnum_functions)

lemma response_inherited:
  assumes "fuelType data \<in> set Object_prototype_keys"
  shows "presentValueEbucks (calculate_response data) = NaN"
    and "upfrontSavings (calculate_response data) = NaN"
    and "totalSavings (calculate_response data) = NaN"
    and "presentValueEbucks (calculateSavings_result data) = NaN"
    and "upfrontSavings (calculateSavings_result data) = NaN"
    and "totalSavings (calculateSavings_result data) = NaN"
  by (simp_all add: calculate_response_def calculateSavings_result_def Let_def
      pvEbucks_js_inherited[OF assms] jsnum_arith jsnum_functions)


lemma standard_plain:
  assumes "ft \<notin> set Object_prototype_keys"
  shows "std_presentValueEbucks (calculateStandardUpfrontBenefits_js fi dst ft lvl) =
           Num (std_presentValueEbucks (calculateStandardUpfrontBenefits fi dst ft lvl))"
    and "std_carbonTaxSavings (calculateStandardUpfrontBenefits_js fi dst ft lvl) =
           Num (std_carbonTaxSavings (calculateStandardUpfrontBenefits fi dst ft lvl))"
    and "std_upfrontSavings (calculateStandardUpfrontBenefits_js fi dst ft lvl) =
           Num (std_upfrontSavings (calculateStandardUpfrontBenefits fi dst ft lvl))"
  by (simp_all only: calculateStandardUpfrontBenefits_js_def calculateStandardUpfrontBenefits_def
      Let_def StandardUpfrontBenefits.simps js_or_number_plain[OF assms] carbonTaxLoop_js_Num
      jsnum_arith jsnum_functions)

lemma response_plain_rest:
  assumes "fuelType data \<notin> set Object_prototype_keys"
  shows "std_presentValueEbucks (standardUpfrontBenefits (calculate_response data)) =
           Num (std_presentValueEbucks (standardUpfrontBenefits (calculate data)))"
    and "std_carbonTaxSavings (standardUpfrontBenefits (calculate_response data)) =
           Num (std_carbonTaxSavings (standardUpfrontBenefits (calculate data)))"
    and "std_upfrontSavings (standardUpfrontBenefits (calculate_response data)) =
           Num (std_upfrontSavings (standardUpfrontBenefits (calculate data)))"
    and "ice (co2Emissions (calculate_response data)) = Num (ice (co2Emissions (calculate data)))"
    and "ev (co2Emissions (calculate_response data)) = Num (ev (co2Emissions (calculate data)))"
    and "monthlySavings (co2Emissions (calculate_response data)) =
           Num (monthlySavings (co2Emissions (calculate data)))"
    and "yearlySavings (co2Emissions (calculate_response data)) =
           Num (yearlySavings (co2Emissions (calculate data)))"
  by (simp_all only: calculate_response_def calculate_def Let_def CalculationResult.simps
      Co2Emissions.simps standard_plain[OF assms] locals_plain[OF assms] jsnum_functions)

lemma result_plain_rest:
  assumes "fuelType data \<notin> set Object_prototype_keys"
  shows "std_presentValueEbucks (standardUpfrontBenefits (calculateSavings_result data)) =
           Num (std_presentValueEbucks (standardUpfrontBenefits (calculateSavings data)))"
    and "std_carbonTaxSavings (standardUpfrontBenefits (calculateSavings_result data)) =
           Num (std_carbonTaxSavings (standardUpfrontBenefits (calculateSavings data)))"
    and "std_upfrontSavings (standardUpfrontBenefits (calculateSavings_result data)) =
           Num (std_upfrontSavings (standardUpfrontBenefits (calculateSavings data)))"
    and "ice (co2Emissions (calculateSavings_result data)) =
           Num (ice (co2Emissions (calculateSavings data)))"
    and "ev (co2Emissions (calculateSavings_result data)) =
           Num (ev (co2Emissions (calculateSavings data)))"
    and "monthlySavings (co2Emissions (calculateSavings_result data)) =
           Num (monthlySavings (co2Emissions (calculateSavings data)))"
    and "yearlySavings (co2Emissions (calculateSavings_result data)) =
           Num (yearlySavings (co2Emissions (calculateSavings data)))"
  by (simp_all only: calculateSavings_result_def calculateSavings_def Let_def
      CalculationResult.simps Co2Emissions.simps StandardUpfrontBenefits.simps
      standard_plain[OF assms] locals_plain[OF assms] jsnum_functions)

lemma breakdown_numeric:
  "\<bar>upfrontSavings (calculate data)
      - (presentValueEbucks (calculate data) + carbonTaxSavings (calculate data))\<bar> \<le> 1 / 100"
  "\<bar>totalSavings (calculate data)
      - (upfrontSavings (calculate data) + fuelSpendSavings (calculate data))\<bar> \<le> 1 / 100"
  "\<bar>upfrontSavings (calculateSavings data)
      - (presentValueEbucks (calculateSavings data) + carbonTaxSavings (calculateSavings data))\<bar>
     \<le> 1 / 100"
  "\<bar>totalSavings (calculateSavings data)
      - (upfrontSavings (calculateSavings data) + fuelSpendSavings (calculateSavings data))\<bar>
     \<le> 1 / 100"
  unfolding calculate_def calculateSavings_def Let_def CalculationResult.simps
  by (rule round2_add toFixed2_add toFixed2_add_fixed)+

lemma no_bank_numeric:
  assumes "hasNoBank data"
  shows "presentValueEbucks (calculate data) = 0" "carbonTaxSavings (calculate data) = 0"
    "presentValueEbucks (calculateSavings data) = 0" "carbonTaxSavings (calculateSavings data) = 0"
  using assms
  by (simp_all add: calculate_def calculateSavings_def Let_def pvEbucks_noBank carbon_noBank
      round2_zero toFixed2_zero)

lemma request_keys:
  "fuelType sample_request \<notin> set Object_prototype_keys"
  "fuelType (sample_request\<lparr>hasNoBank := True\<rparr>) \<notin> set Object_prototype_keys"
  "fuelType toString_request \<in> set Object_prototype_keys"
  "hasNoBank toString_request"
  by (simp_all add: sample_request_def toString_request_def Object_prototype_keys_def)

section \<open>The claims\<close>

text \<open>
  C1, as the code has it. The server returns the difference of two present values, rounded
  to 2 decimals: the fuel cost of year 1 escalated by the server's fuel inflation each
  year, and the charging cost (a tenth of it with solar), each year discounted by
  \<open>presentValue\<close>, over the loan term. The client returns something else: the nominal
  cumulative monthly fuel cost minus the nominal cumulative monthly charging cost over
  \<open>12 * loanTermYears\<close> months, each month inflated by a fractional power and nothing
  discounted, rounded to 2 decimals. Neither is clamped at zero.
\<close>

theorem fuel_spend_savings_formula:
  "fuelSpendSavings (calculate data) =
     round2 ((\<Sum>i<loanTermYears_or_default data.
                presentValue (year1FuelCost data * (1 + FUEL_INFLATION_server) ^ i)
                  DISCOUNT_RATE (i + 1))
             - (\<Sum>i<loanTermYears_or_default data.
                  presentValue (if hasSolar data then annualEvCost data * 0.1 else annualEvCost data)
                    DISCOUNT_RATE (i + 1))) \<and>
   fuelSpendSavings (calculateSavings data) =
     toFixed2 ((\<Sum>month<loanTermYears_or_default data * 12.
                  monthlyFuelSpend data * (1 + FUEL_INFLATION_client) powr (real month / 12))
               - (\<Sum>month<loanTermYears_or_default data * 12.
                    monthlyChargingCost data * (1 + ELECTRICITY_INFLATION) powr (real month / 12)))"
proof
  show "fuelSpendSavings (calculate data) =
     round2 ((\<Sum>i<loanTermYears_or_default data.
                presentValue (year1FuelCost data * (1 + FUEL_INFLATION_server) ^ i)
                  DISCOUNT_RATE (i + 1))
             - (\<Sum>i<loanTermYears_or_default data.
                  presentValue (if hasSolar data then annualEvCost data * 0.1 else annualEvCost data)
                    DISCOUNT_RATE (i + 1)))"
    by (simp only: calculate_def Let_def CalculationResult.simps pvFuelCost_pv_sum pvEvCost_sum)
  show "fuelSpendSavings (calculateSavings data) =
     toFixed2 ((\<Sum>month<loanTermYears_or_default data * 12.
                  monthlyFuelSpend data * (1 + FUEL_INFLATION_client) powr (real month / 12))
               - (\<Sum>month<loanTermYears_or_default data * 12.
                    monthlyChargingCost data * (1 + ELECTRICITY_INFLATION) powr (real month / 12)))"
    by (simp only: calculateSavings_def Let_def CalculationResult.simps rawFuelSpendSavings_def
        calculateCumulativeCost_sum)
qed

theorem fuel_spend_savings_formula_witness:
  "fuelSpendSavings (calculate (sample_request\<lparr>loanTermYears := 1\<rparr>)) = 1921076 / 100"
  using fuel_spend_savings_formula[of "sample_request\<lparr>loanTermYears := 1\<rparr>"]
  by (simp add: sample_request_def loanTermYears_or_default_def presentValue_def
      year1FuelCost_def monthlyFuelSpend_def monthlyLitres_def consumptionRate_def fuelPrice_def
      FUEL_CONSUMPTION_def FUEL_PRICES_def js_or_def annualEvCost_def EV_CONSUMPTION_def
      ESKOM_RATE_def STANDARD_ESKOM_RATE_def PREMIUM_ESKOM_RATE_def DISCOUNT_RATE_def
      FUEL_INFLATION_server_def round2_def Math_round_def)

text \<open>
  C1 as stated fails in the client: for the sample request with a one-year term the
  returned \<open>fuelSpendSavings\<close> exceeds the difference of the two present values by more
  than 600.
\<close>

theorem fuel_spend_savings_counterexample:
  "(\<Sum>i<loanTermYears_or_default (sample_request\<lparr>loanTermYears := 1\<rparr>).
       presentValue (year1FuelCost (sample_request\<lparr>loanTermYears := 1\<rparr>)
                       * (1 + FUEL_INFLATION_client) ^ i) DISCOUNT_RATE (i + 1))
   - (\<Sum>i<loanTermYears_or_default (sample_request\<lparr>loanTermYears := 1\<rparr>).
        presentValue (if hasSolar (sample_request\<lparr>loanTermYears := 1\<rparr>)
                      then annualEvCost (sample_request\<lparr>loanTermYears := 1\<rparr>) * 0.1
                      else annualEvCost (sample_request\<lparr>loanTermYears := 1\<rparr>))
          DISCOUNT_RATE (i + 1))
   + 600 < fuelSpendSavings (calculateSavings (sample_request\<lparr>loanTermYears := 1\<rparr>))"
proof -
  have lo: "(29187 / 10) * real 12
      \<le> calculateCumulativeCost (29187 / 10) FUEL_INFLATION_client 12"
    by (rule calculateCumulativeCost_lower) (simp_all add: FUEL_INFLATION_client_def)
  have up: "calculateCumulativeCost (1142505 / 1000) ELECTRICITY_INFLATION 12
      \<le> (1142505 / 1000) * (1 + ELECTRICITY_INFLATION) * real 12"
    by (rule calculateCumulativeCost_upper) (simp_all add: ELECTRICITY_INFLATION_def)
  have raw: "rawFuelSpendSavings (sample_request\<lparr>loanTermYears := 1\<rparr>) =
      toFixed2 (calculateCumulativeCost (29187 / 10) FUEL_INFLATION_client 12
                - calculateCumulativeCost (1142505 / 1000) ELECTRICITY_INFLATION 12)"
    unfolding rawFuelSpendSavings_def Let_def sample_one_year by simp
  have "calculateCumulativeCost (29187 / 10) FUEL_INFLATION_client 12
                - calculateCumulativeCost (1142505 / 1000) ELECTRICITY_INFLATION 12 - 1 / 200
        \<le> rawFuelSpendSavings (sample_request\<lparr>loanTermYears := 1\<rparr>)"
    unfolding raw
    using toFixed2_err[of "calculateCumulativeCost (29187 / 10) FUEL_INFLATION_client 12
                - calculateCumulativeCost (1142505 / 1000) ELECTRICITY_INFLATION 12"]
    by linarith
  moreover have "350244 / 10 \<le> calculateCumulativeCost (29187 / 10) FUEL_INFLATION_client 12"
    using lo by simp
  moreover have "calculateCumulativeCost (1142505 / 1000) ELECTRICITY_INFLATION 12 \<le> 15167"
    using up by (simp add: ELECTRICITY_INFLATION_def)
  ultimately have "19857 \<le> rawFuelSpendSavings (sample_request\<lparr>loanTermYears := 1\<rparr>)"
    by linarith
  moreover have "fuelSpendSavings (calculateSavings (sample_request\<lparr>loanTermYears := 1\<rparr>)) =
      rawFuelSpendSavings (sample_request\<lparr>loanTermYears := 1\<rparr>)"
    by (simp add: calculateSavings_def Let_def)
  moreover have "(\<Sum>i<loanTermYears_or_default (sample_request\<lparr>loanTermYears := 1\<rparr>).
       presentValue (year1FuelCost (sample_request\<lparr>loanTermYears := 1\<rparr>)
                       * (1 + FUEL_INFLATION_client) ^ i) DISCOUNT_RATE (i + 1))
   - (\<Sum>i<loanTermYears_or_default (sample_request\<lparr>loanTermYears := 1\<rparr>).
        presentValue (if hasSolar (sample_request\<lparr>loanTermYears := 1\<rparr>)
                      then annualEvCost (sample_request\<lparr>loanTermYears := 1\<rparr>) * 0.1
                      else annualEvCost (sample_request\<lparr>loanTermYears := 1\<rparr>))
          DISCOUNT_RATE (i + 1)) < 19211"
    unfolding sample_one_year by (simp add: presentValue_def DISCOUNT_RATE_def)
  ultimately show ?thesis by linarith
qed

text \<open>
  C2. For every input whose fuel type is not a name that objects inherit from
  \<open>Object.prototype\<close>, in the server's response and in the client's result alike,
  \<open>upfrontSavings\<close> differs from \<open>presentValueEbucks + carbonTaxSavings\<close> by at most 0.01
  and \<open>totalSavings\<close> differs from \<open>upfrontSavings + fuelSpendSavings\<close> by at most 0.01,
  all of them being the rounded output fields. For a fuel type that is such a name, say
  \<open>toString\<close>, the \<open>||\<close> defaults of the two table lookups are not taken:
  \<open>upfrontSavings\<close> and \<open>totalSavings\<close> are NaN and neither comparison holds.
\<close>

theorem savings_breakdown_or_nan:
  "(fuelType data \<notin> set Object_prototype_keys \<longrightarrow>
      \<bar>upfrontSavings (calculate_response data)
         - (presentValueEbucks (calculate_response data)
            + carbonTaxSavings (calculate_response data))\<bar> \<le> Num (1 / 100) \<and>
      \<bar>totalSavings (calculate_response data)
         - (upfrontSavings (calculate_response data)
            + fuelSpendSavings (calculate_response data))\<bar> \<le> Num (1 / 100) \<and>
      \<bar>upfrontSavings (calculateSavings_result data)
         - (presentValueEbucks (calculateSavings_result data)
            + carbonTaxSavings (calculateSavings_result data))\<bar> \<le> Num (1 / 100) \<and>
      \<bar>totalSavings (calculateSavings_result data)
         - (upfrontSavings (calculateSavings_result data)
            + fuelSpendSavings (calculateSavings_result data))\<bar> \<le> Num (1 / 100)) \<and>
   (fuelType data \<in> set Object_prototype_keys \<longrightarrow>
      upfrontSavings (calculate_response data) = NaN \<and>
      totalSavings (calculate_response data) = NaN \<and>
      upfrontSavings (calculateSavings_result data) = NaN \<and>
      totalSavings (calculateSavings_result data) = NaN \<and>
      \<not> \<bar>upfrontSavings (calculate_response data)
           - (presentValueEbucks (calculate_response data)
              + carbonTaxSavings (calculate_response data))\<bar> \<le> Num (1 / 100) \<and>
      \<not> \<bar>totalSavings (calculate_response data)
           - (upfrontSavings (calculate_response data)
              + fuelSpendSavings (calculate_response data))\<bar> \<le> Num (1 / 100) \<and>
      \<not> \<bar>upfrontSavings (calculateSavings_result data)
           - (presentValueEbucks (calculateSavings_result data)
              + carbonTaxSavings (calculateSavings_result data))\<bar> \<le> Num (1 / 100) \<and>
      \<not> \<bar>totalSavings (calculateSavings_result data)
           - (upfrontSavings (calculateSavings_result data)
              + fuelSpendSavings (calculateSavings_result data))\<bar> \<le> Num (1 / 100))"
proof (intro conjI impI)
  assume plain: "fuelType data \<notin> set Object_prototype_keys"
  show "\<bar>upfrontSavings (calculate_response data)
         - (presentValueEbucks (calculate_response data)
            + carbonTaxSavings (calculate_response data))\<bar> \<le> Num (1 / 100)"
    by (simp only: response_plain[OF plain] jsnum_arith jsnum_compare breakdown_numeric)
  show "\<bar>totalSavings (calculate_response data)
         - (upfrontSavings (calculate_response data)
            + fuelSpendSavings (calculate_response data))\<bar> \<le> Num (1 / 100)"
    by (simp only: response_plain[OF plain] jsnum_arith jsnum_compare breakdown_numeric)
  show "\<bar>upfrontSavings (calculateSavings_result data)
         - (presentValueEbucks (calculateSavings_result data)
            + carbonTaxSavings (calculateSavings_result data))\<bar> \<le> Num (1 / 100)"
    by (simp only: result_plain[OF plain] jsnum_arith jsnum_compare breakdown_numeric)
  show "\<bar>totalSavings (calculateSavings_result data)
         - (upfrontSavings (calculateSavings_result data)
            + fuelSpendSavings (calculateSavings_result data))\<bar> \<le> Num (1 / 100)"
    by (simp only: result_plain[OF plain] jsnum_arith jsnum_compare breakdown_numeric)
next
  assume inh: "fuelType data \<in> set Object_prototype_keys"
  note nan = response_inherited[OF inh]
  show "upfrontSavings (calculate_response data) = NaN"
    and "totalSavings (calculate_response data) = NaN"
    and "upfrontSavings (calculateSavings_result data) = NaN"
    and "totalSavings (calculateSavings_result data) = NaN"
    by (rule nan)+
  show "\<not> \<bar>upfrontSavings (calculate_response data)
           - (presentValueEbucks (calculate_response data)
              + carbonTaxSavings (calculate_response data))\<bar> \<le> Num (1 / 100)"
    by (simp only: nan jsnum_arith jsnum_compare not_False_eq_True)
  show "\<not> \<bar>totalSavings (calculate_response data)
           - (upfrontSavings (calculate_response data)
              + fuelSpendSavings (calculate_response data))\<bar> \<le> Num (1 / 100)"
    by (simp only: nan jsnum_arith jsnum_compare not_False_eq_True)
  show "\<not> \<bar>upfrontSavings (calculateSavings_result data)
           - (presentValueEbucks (calculateSavings_result data)
              + carbonTaxSavings (calculateSavings_result data))\<bar> \<le> Num (1 / 100)"
    by (simp only: nan jsnum_arith jsnum_compare not_False_eq_True)
  show "\<not> \<bar>totalSavings (calculateSavings_result data)
           - (upfrontSavings (calculateSavings_result data)
              + fuelSpendSavings (calculateSavings_result data))\<bar> \<le> Num (1 / 100)"
    by (simp only: nan jsnum_arith jsnum_compare not_False_eq_True)
qed

theorem savings_breakdown_or_nan_witness:
  "fuelType sample_request \<notin> set Object_prototype_keys \<and>
   \<bar>upfrontSavings (calculate_response sample_request)
      - (presentValueEbucks (calculate_response sample_request)
         + carbonTaxSavings (calculate_response sample_request))\<bar> \<le> Num (1 / 100) \<and>
   fuelType toString_request \<in> set Object_prototype_keys \<and>
   upfrontSavings (calculate_response toString_request) = NaN \<and>
   \<not> \<bar>upfrontSavings (calculate_response toString_request)
        - (presentValueEbucks (calculate_response toString_request)
           + carbonTaxSavings (calculate_response toString_request))\<bar> \<le> Num (1 / 100)"
  using request_keys(1,3) savings_breakdown_or_nan[of sample_request]
    savings_breakdown_or_nan[of toString_request]
  by blast

text \<open>
  C3. With \<open>hasNoBank\<close> set and a fuel type that is not a name that objects inherit from
  \<open>Object.prototype\<close>, whatever the other fields are, the returned \<open>presentValueEbucks\<close>
  and \<open>carbonTaxSavings\<close> are 0, on the server and in the client. For a fuel type that
  is such a name the returned \<open>presentValueEbucks\<close> is NaN even with \<open>hasNoBank\<close> set:
  the zero rate is multiplied by the NaN litres.
\<close>

theorem no_bank_zero_or_nan:
  "(fuelType data \<notin> set Object_prototype_keys \<longrightarrow> hasNoBank data \<longrightarrow>
      presentValueEbucks (calculate_response data) = Num 0 \<and>
      carbonTaxSavings (calculate_response data) = Num 0 \<and>
      presentValueEbucks (calculateSavings_result data) = Num 0 \<and>
      carbonTaxSavings (calculateSavings_result data) = Num 0) \<and>
   (fuelType data \<in> set Object_prototype_keys \<longrightarrow>
      presentValueEbucks (calculate_response data) = NaN \<and>
      presentValueEbucks (calculateSavings_result data) = NaN)"
proof (intro conjI impI)
  assume plain: "fuelType data \<notin> set Object_prototype_keys" and nb: "hasNoBank data"
  show "presentValueEbucks (calculate_response data) = Num 0"
    by (simp only: response_plain[OF plain] no_bank_numeric[OF nb])
  show "carbonTaxSavings (calculate_response data) = Num 0"
    by (simp only: response_plain[OF plain] no_bank_numeric[OF nb])
  show "presentValueEbucks (calculateSavings_result data) = Num 0"
    by (simp only: result_plain[OF plain] no_bank_numeric[OF nb])
  show "carbonTaxSavings (calculateSavings_result data) = Num 0"
    by (simp only: result_plain[OF plain] no_bank_numeric[OF nb])
next
  assume inh: "fuelType data \<in> set Object_prototype_keys"
  show "presentValueEbucks (calculate_response data) = NaN"
    and "presentValueEbucks (calculateSavings_result data) = NaN"
    by (rule response_inherited[OF inh])+
qed

theorem no_bank_zero_or_nan_witness:
  "fuelType (sample_request\<lparr>hasNoBank := True\<rparr>) \<notin> set Object_prototype_keys \<and>
   hasNoBank (sample_request\<lparr>hasNoBank := True\<rparr>) \<and>
   presentValueEbucks (calculate_response (sample_request\<lparr>hasNoBank := True\<rparr>)) = Num 0 \<and>
   carbonTaxSavings (calculate_response (sample_request\<lparr>hasNoBank := True\<rparr>)) = Num 0 \<and>
   fuelType toString_request \<in> set Object_prototype_keys \<and>
   hasNoBank toString_request \<and>
   presentValueEbucks (calculate_response toString_request) = NaN \<and>
   presentValueEbucks (calculateSavings_result toString_request) = NaN"
proof -
  have nb: "hasNoBank (sample_request\<lparr>hasNoBank := True\<rparr>)" by simp
  show ?thesis
    using request_keys(2,3,4) nb
      no_bank_zero_or_nan[of "sample_request\<lparr>hasNoBank := True\<rparr>"]
      no_bank_zero_or_nan[of toString_request]
    by blast
qed

text \<open>
  C4. The reward present value is the growing annuity over exactly 5 periods and the
  carbon-tax savings are the sum over the 5 years from 2025 on, each then rounded; so two
  inputs that differ only in \<open>loanTermYears\<close> get the same \<open>presentValueEbucks\<close> and the
  same \<open>carbonTaxSavings\<close>.
\<close>

theorem upfront_fixed_five_years:
  assumes "b = a\<lparr>loanTermYears := loanTermYears b\<rparr>"
  shows "presentValueEbucks (calculate a) = presentValueEbucks (calculate b) \<and>
         carbonTaxSavings (calculate a) = carbonTaxSavings (calculate b) \<and>
         presentValueEbucks (calculateSavings a) = presentValueEbucks (calculateSavings b) \<and>
         carbonTaxSavings (calculateSavings a) = carbonTaxSavings (calculateSavings b) \<and>
         presentValueEbucks (calculate a) =
           round2 (presentValueOfGrowingAnnuity (year1Ebucks a)
                     FUEL_INFLATION_server DISCOUNT_RATE 5) \<and>
         presentValueEbucks (calculateSavings a) =
           toFixed2 (presentValueOfGrowingAnnuity (year1Ebucks a)
                       FUEL_INFLATION_client DISCOUNT_RATE 5) \<and>
         carbonTaxSavings (calculate a) =
           round2 (if hasNoBank a then 0
                   else (\<Sum>i<5. annualTonnesCo2 a * carbonTaxRate (2025 + i)
                                  / (1 + DISCOUNT_RATE) ^ (i + 1))) \<and>
         carbonTaxSavings (calculateSavings a) =
           toFixed2 (if hasNoBank a then 0
                     else (\<Sum>i<5. annualTonnesCo2 a * carbonTaxRate (2025 + i)
                                    / (1 + DISCOUNT_RATE) ^ (i + 1)))"
proof -
  have pe: "pvEbucks fi b = pvEbucks fi a" for fi
    using upfront_term_frame(1)[where data = a and n = "loanTermYears b"] assms by simp
  have ct: "carbonTaxSavings_local b = carbonTaxSavings_local a"
    using upfront_term_frame(2)[where data = a and n = "loanTermYears b"] assms by simp
  have "presentValueEbucks (calculate a) = presentValueEbucks (calculate b)"
    by (simp add: calculate_def Let_def pe)
  moreover have "carbonTaxSavings (calculate a) = carbonTaxSavings (calculate b)"
    by (simp add: calculate_def Let_def ct)
  moreover have "presentValueEbucks (calculateSavings a) = presentValueEbucks (calculateSavings b)"
    by (simp add: calculateSavings_def Let_def pe)
  moreover have "carbonTaxSavings (calculateSavings a) = carbonTaxSavings (calculateSavings b)"
    by (simp add: calculateSavings_def Let_def ct)
  moreover have "presentValueEbucks (calculate a) =
           round2 (presentValueOfGrowingAnnuity (year1Ebucks a)
                     FUEL_INFLATION_server DISCOUNT_RATE 5)"
    by (simp add: calculate_def Let_def pvEbucks_def)
  moreover have "presentValueEbucks (calculateSavings a) =
           toFixed2 (presentValueOfGrowingAnnuity (year1Ebucks a)
                       FUEL_INFLATION_client DISCOUNT_RATE 5)"
    by (simp add: calculateSavings_def Let_def pvEbucks_def)
  moreover have "carbonTaxSavings (calculate a) =
           round2 (if hasNoBank a then 0
                   else (\<Sum>i<5. annualTonnesCo2 a * carbonTaxRate (2025 + i)
                                  / (1 + DISCOUNT_RATE) ^ (i + 1)))"
    by (simp only: calculate_def Let_def carbonTaxSavings_local_sum CalculationResult.simps)
  moreover have "carbonTaxSavings (calculateSavings a) =
           toFixed2 (if hasNoBank a then 0
                     else (\<Sum>i<5. annualTonnesCo2 a * carbonTaxRate (2025 + i)
                                    / (1 + DISCOUNT_RATE) ^ (i + 1)))"
    by (simp only: calculateSavings_def Let_def carbonTaxSavings_local_sum CalculationResult.simps)
  ultimately show ?thesis by blast
qed

theorem upfront_fixed_five_years_witness:
  "sample_request\<lparr>loanTermYears := 7\<rparr> =
     sample_request\<lparr>loanTermYears := loanTermYears (sample_request\<lparr>loanTermYears := 7\<rparr>)\<rparr> \<and>
   loanTermYears (sample_request\<lparr>loanTermYears := 7\<rparr>) \<noteq> loanTermYears sample_request \<and>
   presentValueEbucks (calculate sample_request) =
     presentValueEbucks (calculate (sample_request\<lparr>loanTermYears := 7\<rparr>)) \<and>
   carbonTaxSavings (calculate sample_request) =
     carbonTaxSavings (calculate (sample_request\<lparr>loanTermYears := 7\<rparr>)) \<and>
   presentValueEbucks (calculateSavings sample_request) =
     presentValueEbucks (calculateSavings (sample_request\<lparr>loanTermYears := 7\<rparr>)) \<and>
   carbonTaxSavings (calculateSavings sample_request) =
     carbonTaxSavings (calculateSavings (sample_request\<lparr>loanTermYears := 7\<rparr>))"
proof -
  have h: "sample_request\<lparr>loanTermYears := 7\<rparr> =
     sample_request\<lparr>loanTermYears := loanTermYears (sample_request\<lparr>loanTermYears := 7\<rparr>)\<rparr>"
    by simp
  have d: "loanTermYears (sample_request\<lparr>loanTermYears := 7\<rparr>) \<noteq> loanTermYears sample_request"
    by (simp add: sample_request_def)
  show ?thesis using h d upfront_fixed_five_years[OF h] by blast
qed

text \<open>
  C5. Two inputs that agree on \<open>distance\<close> and \<open>fuelType\<close> get the same
  \<open>standardUpfrontBenefits\<close>, whatever their reward level, add-on flags, bank flag and loan
  term are. On the server the three standard fields are the caller's own three upfront
  fields at level 4 with both add-ons and a bank affiliation (whose horizon is 5 years
  by C4).
\<close>

theorem standard_benefits_invariant:
  assumes "distance a = distance b" and "fuelType a = fuelType b"
  shows "standardUpfrontBenefits (calculate a) = standardUpfrontBenefits (calculate b) \<and>
         standardUpfrontBenefits (calculateSavings a) =
           standardUpfrontBenefits (calculateSavings b) \<and>
         std_presentValueEbucks (standardUpfrontBenefits (calculate a)) =
           presentValueEbucks (calculate (a\<lparr>ebucksLevel := 4, hasInsurance := True,
                                             hasFinancing := True, hasNoBank := False\<rparr>)) \<and>
         std_carbonTaxSavings (standardUpfrontBenefits (calculate a)) =
           carbonTaxSavings (calculate (a\<lparr>ebucksLevel := 4, hasInsurance := True,
                                           hasFinancing := True, hasNoBank := False\<rparr>)) \<and>
         std_upfrontSavings (standardUpfrontBenefits (calculate a)) =
           upfrontSavings (calculate (a\<lparr>ebucksLevel := 4, hasInsurance := True,
                                         hasFinancing := True, hasNoBank := False\<rparr>))"
proof -
  have "standardUpfrontBenefits (calculate a) = standardUpfrontBenefits (calculate b)"
    using assms by (simp add: calculate_def Let_def)
  moreover have "standardUpfrontBenefits (calculateSavings a) =
      standardUpfrontBenefits (calculateSavings b)"
    using assms by (simp add: calculateSavings_def Let_def)
  moreover have std: "standardUpfrontBenefits (calculate a) =
      calculateStandardUpfrontBenefits FUEL_INFLATION_server (distance a) (fuelType a) 4"
    by (simp add: calculate_def Let_def)
  have "std_presentValueEbucks (standardUpfrontBenefits (calculate a)) =
           presentValueEbucks (calculate (a\<lparr>ebucksLevel := 4, hasInsurance := True,
                                             hasFinancing := True, hasNoBank := False\<rparr>))"
    unfolding std standard_is_reference by (simp add: calculate_def Let_def)
  moreover have "std_carbonTaxSavings (standardUpfrontBenefits (calculate a)) =
           carbonTaxSavings (calculate (a\<lparr>ebucksLevel := 4, hasInsurance := True,
                                           hasFinancing := True, hasNoBank := False\<rparr>))"
    unfolding std standard_is_reference by (simp add: calculate_def Let_def)
  moreover have "std_upfrontSavings (standardUpfrontBenefits (calculate a)) =
           upfrontSavings (calculate (a\<lparr>ebucksLevel := 4, hasInsurance := True,
                                         hasFinancing := True, hasNoBank := False\<rparr>))"
    unfolding std standard_is_reference by (simp add: calculate_def Let_def)
  ultimately show ?thesis by blast
qed

theorem standard_benefits_invariant_witness:
  "distance sample_request =
     distance (sample_request\<lparr>ebucksLevel := 1, hasInsurance := False, hasFinancing := False,
                               hasNoBank := True, loanTermYears := 7\<rparr>) \<and>
   fuelType sample_request =
     fuelType (sample_request\<lparr>ebucksLevel := 1, hasInsurance := False, hasFinancing := False,
                               hasNoBank := True, loanTermYears := 7\<rparr>) \<and>
   standardUpfrontBenefits (calculate sample_request) =
     standardUpfrontBenefits
       (calculate (sample_request\<lparr>ebucksLevel := 1, hasInsurance := False,
                     hasFinancing := False, hasNoBank := True, loanTermYears := 7\<rparr>)) \<and>
   standardUpfrontBenefits (calculateSavings sample_request) =
     standardUpfrontBenefits
       (calculateSavings (sample_request\<lparr>ebucksLevel := 1, hasInsurance := False,
                     hasFinancing := False, hasNoBank := True, loanTermYears := 7\<rparr>))"
proof -
  have h1: "distance sample_request =
     distance (sample_request\<lparr>ebucksLevel := 1, hasInsurance := False, hasFinancing := False,
                               hasNoBank := True, loanTermYears := 7\<rparr>)"
    by simp
  have h2: "fuelType sample_request =
     fuelType (sample_request\<lparr>ebucksLevel := 1, hasInsurance := False, hasFinancing := False,
                               hasNoBank := True, loanTermYears := 7\<rparr>)"
    by simp
  show ?thesis using h1 h2 standard_benefits_invariant[OF h1 h2] by blast
qed

text \<open>
  C6, as the code has it. When the two rates are at least \<open>1e-9\<close> apart and the discount
  rate is not -1, the closed form equals the loop sum of the escalated and then discounted
  yearly costs; the server's fuel-cost loop is that sum at the server's rates.
\<close>

theorem growing_annuity_is_loop_sum:
  assumes "1 / 10 ^ 9 \<le> \<bar>g - d\<bar>" and "d \<noteq> - 1"
  shows "presentValueOfGrowingAnnuity cf g d n = (\<Sum>i<n. cf * (1 + g) ^ i / (1 + d) ^ (i + 1)) \<and>
         pvFuelCost data =
           presentValueOfGrowingAnnuity (year1FuelCost data) FUEL_INFLATION_server DISCOUNT_RATE
             (loanTermYears_or_default data)"
proof -
  have "g \<noteq> d" using assms(1) by auto
  moreover have "1 + d \<noteq> 0" using assms(2) by linarith
  ultimately have "(\<Sum>i<n. cf * (1 + g) ^ i / (1 + d) ^ (i + 1)) =
         cf * (((1 + g) ^ n - (1 + d) ^ n) / (g - d)) / (1 + d) ^ n"
    by (rule growing_stream_closed_form)
  moreover have "\<not> \<bar>g - d\<bar> < 1 / 10 ^ 9" using assms(1) by linarith
  ultimately have one: "presentValueOfGrowingAnnuity cf g d n =
      (\<Sum>i<n. cf * (1 + g) ^ i / (1 + d) ^ (i + 1))"
    by (simp add: presentValueOfGrowingAnnuity_def)
  have r: "FUEL_INFLATION_server \<noteq> DISCOUNT_RATE" "1 + DISCOUNT_RATE \<noteq> 0"
    "\<not> \<bar>FUEL_INFLATION_server - DISCOUNT_RATE\<bar> < 1 / 10 ^ 9"
    by (simp_all add: FUEL_INFLATION_server_def DISCOUNT_RATE_def)
  have "pvFuelCost data =
           presentValueOfGrowingAnnuity (year1FuelCost data) FUEL_INFLATION_server DISCOUNT_RATE
             (loanTermYears_or_default data)"
    unfolding pvFuelCost_sum growing_stream_closed_form[OF r(1,2)]
    using r(3) by (simp add: presentValueOfGrowingAnnuity_def)
  with one show ?thesis by blast
qed

theorem growing_annuity_is_loop_sum_witness:
  "1 / 10 ^ 9 \<le> \<bar>(9 / 100 :: real) - 1 / 10\<bar> \<and> (1 / 10 :: real) \<noteq> - 1 \<and>
   presentValueOfGrowingAnnuity 121 (9 / 100) (1 / 10) 2 = 121 / (11 / 10) + 121 * (109 / 100) / (121 / 100)"
proof -
  have h1: "1 / 10 ^ 9 \<le> \<bar>(9 / 100 :: real) - 1 / 10\<bar>" by simp
  have h2: "(1 / 10 :: real) \<noteq> - 1" by simp
  show ?thesis
    using h1 h2 growing_annuity_is_loop_sum[OF h1 h2, where cf = 121 and n = 2]
    by (simp add: eval_nat_numeral)
qed

text \<open>
  C6 as stated fails for rates that differ by less than \<open>1e-9\<close>: the function takes its
  first branch there, and for a cash flow of 100 over 2 periods the result is more than 16
  below the loop sum.
\<close>

theorem growing_annuity_counterexample:
  "(1 / 10 :: real) \<noteq> 1 / 10 + 1 / 10 ^ 10 \<and>
   presentValueOfGrowingAnnuity 100 (1 / 10) (1 / 10 + 1 / 10 ^ 10) 2 + 16
     < (\<Sum>i<2. 100 * (1 + 1 / 10) ^ i / (1 + (1 / 10 + 1 / 10 ^ 10)) ^ (i + 1))"
  by (simp add: presentValueOfGrowingAnnuity_def eval_nat_numeral)

text \<open>
  C7. \<open>presentValueOfGrowingAnnuity\<close> returns \<open>cashFlowYear1 * numPeriods /
  (1 + discountRate) ^ numPeriods\<close> when the two rates are less than \<open>1e-9\<close> apart, and
  \<open>cashFlowYear1 * ((1 + growthRate) ^ numPeriods - (1 + discountRate) ^ numPeriods) /
  (growthRate - discountRate) / (1 + discountRate) ^ numPeriods\<close> otherwise.
\<close>

theorem presentValueOfGrowingAnnuity_branches:
  "(\<bar>growthRate - discountRate\<bar> < 1 / 10 ^ 9 \<longrightarrow>
      presentValueOfGrowingAnnuity cashFlowYear1 growthRate discountRate numPeriods =
        cashFlowYear1 * real numPeriods / (1 + discountRate) ^ numPeriods) \<and>
   (\<not> \<bar>growthRate - discountRate\<bar> < 1 / 10 ^ 9 \<longrightarrow>
      presentValueOfGrowingAnnuity cashFlowYear1 growthRate discountRate numPeriods =
        cashFlowYear1 * ((1 + growthRate) ^ numPeriods - (1 + discountRate) ^ numPeriods)
          / (growthRate - discountRate) / (1 + discountRate) ^ numPeriods)"
  by (simp add: presentValueOfGrowingAnnuity_def)

theorem presentValueOfGrowingAnnuity_branches_witness:
  "\<bar>(1 / 10 :: real) - 1 / 10\<bar> < 1 / 10 ^ 9 \<and>
   presentValueOfGrowingAnnuity 121 (1 / 10) (1 / 10) 2 = 200 \<and>
   \<not> \<bar>(0 :: real) - 1 / 10\<bar> < 1 / 10 ^ 9 \<and>
   presentValueOfGrowingAnnuity 121 0 (1 / 10) 2 = 210"
  using presentValueOfGrowingAnnuity_branches[of "1 / 10" "1 / 10" 121 2]
    presentValueOfGrowingAnnuity_branches[of 0 "1 / 10" 121 2]
  by (simp add: power2_eq_square)

text \<open>
  C8. When the monthly fuel spend is at least 3000, the qualifying litres are 3000 divided
  by the fuel price; so two inputs at or above the cap that differ only in \<open>distance\<close>
  get the same \<open>presentValueEbucks\<close>.
\<close>

theorem reward_cap:
  assumes "3000 \<le> monthlyFuelSpend a" and "3000 \<le> monthlyFuelSpend b"
    and "b = a\<lparr>distance := distance b\<rparr>"
  shows "qualifyingLitres a = 3000 / fuelPrice a \<and>
         qualifyingLitres b = 3000 / fuelPrice b \<and>
         presentValueEbucks (calculate a) = presentValueEbucks (calculate b) \<and>
         presentValueEbucks (calculateSavings a) = presentValueEbucks (calculateSavings b)"
proof -
  have fp: "fuelPrice b = fuelPrice a"
    using fuelPrice_distance_frame[of "distance b" a] assms(3) by simp
  have tr: "totalRate b = totalRate a"
    using totalRate_distance_frame[of "distance b" a] assms(3) by simp
  have qa: "qualifyingLitres a = 3000 / fuelPrice a"
    using assms(1) by (rule qualifyingLitres_capped)
  have qb: "qualifyingLitres b = 3000 / fuelPrice b"
    using assms(2) by (rule qualifyingLitres_capped)
  have "year1Ebucks a = year1Ebucks b"
    by (simp add: year1Ebucks_def qa qb fp tr)
  then have "pvEbucks fi a = pvEbucks fi b" for fi
    by (simp add: pvEbucks_def)
  then show ?thesis using qa qb by (simp add: calculate_def calculateSavings_def Let_def)
qed

theorem reward_cap_witness:
  "3000 \<le> monthlyFuelSpend (sample_request\<lparr>distance := 2000\<rparr>) \<and>
   3000 \<le> monthlyFuelSpend (sample_request\<lparr>distance := 4000\<rparr>) \<and>
   sample_request\<lparr>distance := 4000\<rparr> =
     sample_request\<lparr>distance := 2000\<rparr>\<lparr>distance := distance (sample_request\<lparr>distance := 4000\<rparr>)\<rparr> \<and>
   distance (sample_request\<lparr>distance := 2000\<rparr>) \<noteq> distance (sample_request\<lparr>distance := 4000\<rparr>) \<and>
   presentValueEbucks (calculate (sample_request\<lparr>distance := 2000\<rparr>)) =
     presentValueEbucks (calculate (sample_request\<lparr>distance := 4000\<rparr>)) \<and>
   presentValueEbucks (calculateSavings (sample_request\<lparr>distance := 2000\<rparr>)) =
     presentValueEbucks (calculateSavings (sample_request\<lparr>distance := 4000\<rparr>))"
proof -
  have h1: "3000 \<le> monthlyFuelSpend (sample_request\<lparr>distance := 2000\<rparr>)"
    by (simp add: sample_spend)
  have h2: "3000 \<le> monthlyFuelSpend (sample_request\<lparr>distance := 4000\<rparr>)"
    by (simp add: sample_spend)
  have h3: "sample_request\<lparr>distance := 4000\<rparr> =
     sample_request\<lparr>distance := 2000\<rparr>\<lparr>distance := distance (sample_request\<lparr>distance := 4000\<rparr>)\<rparr>"
    by simp
  have d: "distance (sample_request\<lparr>distance := 2000\<rparr>) \<noteq> distance (sample_request\<lparr>distance := 4000\<rparr>)"
    by simp
  show ?thesis using h1 h2 h3 d reward_cap[OF h1 h2 h3] by blast
qed

text \<open>
  C9, as the code has it. For every positive distance the EV emissions before rounding are
  positive with solar and smaller than without. The returned \<open>ev\<close> field is rounded to 2
  decimals; it is positive with solar, and smaller than without, from a distance of
  500/1701 km on.
\<close>

theorem solar_emissions_between:
  "(0 < distance data \<longrightarrow>
      0 < evMonthlyEmissions (data\<lparr>hasSolar := True\<rparr>) \<and>
      evMonthlyEmissions (data\<lparr>hasSolar := True\<rparr>) < evMonthlyEmissions (data\<lparr>hasSolar := False\<rparr>)) \<and>
   (500 / 1701 \<le> distance data \<longrightarrow>
      0 < ev (co2Emissions (calculate (data\<lparr>hasSolar := True\<rparr>))) \<and>
      ev (co2Emissions (calculate (data\<lparr>hasSolar := True\<rparr>)))
        < ev (co2Emissions (calculate (data\<lparr>hasSolar := False\<rparr>))) \<and>
      0 < ev (co2Emissions (calculateSavings (data\<lparr>hasSolar := True\<rparr>))) \<and>
      ev (co2Emissions (calculateSavings (data\<lparr>hasSolar := True\<rparr>)))
        < ev (co2Emissions (calculateSavings (data\<lparr>hasSolar := False\<rparr>))))"
proof (intro conjI impI)
  assume "0 < distance data"
  then show "0 < evMonthlyEmissions (data\<lparr>hasSolar := True\<rparr>)"
    and "evMonthlyEmissions (data\<lparr>hasSolar := True\<rparr>) < evMonthlyEmissions (data\<lparr>hasSolar := False\<rparr>)"
    by (simp_all add: ev_emissions_values)
next
  assume d: "500 / 1701 \<le> distance data"
  have s: "1 / 200 \<le> distance data * 1701 / 100000" using d by simp
  have g: "distance data * 1701 / 100000 + 1 / 100 \<le> distance data * 1701 / 10000"
    using d by simp
  have n: "0 \<le> distance data * 1701 / 100000" using d by simp
  show "0 < ev (co2Emissions (calculate (data\<lparr>hasSolar := True\<rparr>)))"
    using round2_pos[OF s] by (simp add: calculate_def Let_def ev_emissions_values)
  show "ev (co2Emissions (calculate (data\<lparr>hasSolar := True\<rparr>)))
        < ev (co2Emissions (calculate (data\<lparr>hasSolar := False\<rparr>)))"
    using round2_strict[OF g] by (simp add: calculate_def Let_def ev_emissions_values)
  show "0 < ev (co2Emissions (calculateSavings (data\<lparr>hasSolar := True\<rparr>)))"
    using toFixed2_pos[OF s] by (simp add: calculateSavings_def Let_def ev_emissions_values)
  show "ev (co2Emissions (calculateSavings (data\<lparr>hasSolar := True\<rparr>)))
        < ev (co2Emissions (calculateSavings (data\<lparr>hasSolar := False\<rparr>)))"
    using toFixed2_strict[OF n g] by (simp add: calculateSavings_def Let_def ev_emissions_values)
qed

theorem solar_emissions_between_witness:
  "0 < distance sample_request \<and> 500 / 1701 \<le> distance sample_request \<and>
   0 < ev (co2Emissions (calculate (sample_request\<lparr>hasSolar := True\<rparr>))) \<and>
   ev (co2Emissions (calculate (sample_request\<lparr>hasSolar := True\<rparr>)))
     < ev (co2Emissions (calculate (sample_request\<lparr>hasSolar := False\<rparr>)))"
proof -
  have h1: "0 < distance sample_request" by (simp add: sample_request_def)
  have h2: "500 / 1701 \<le> distance sample_request" by (simp add: sample_request_def)
  show ?thesis using h1 h2 solar_emissions_between[of sample_request] by blast
qed

text \<open>
  C9 as stated fails for a small positive distance: at 0.1 km the returned solar \<open>ev\<close>
  is 0.
\<close>

theorem solar_emissions_counterexample:
  "0 < distance (sample_request\<lparr>distance := 1 / 10\<rparr>) \<and>
   \<not> 0 < ev (co2Emissions
               (calculate (sample_request\<lparr>distance := 1 / 10, hasSolar := True\<rparr>))) \<and>
   \<not> 0 < ev (co2Emissions
               (calculateSavings (sample_request\<lparr>distance := 1 / 10, hasSolar := True\<rparr>)))"
  by (simp add: calculate_def calculateSavings_def Let_def evMonthlyEmissions_def
      EV_CONSUMPTION_def CO2_SOLAR_def round2_def Math_round_def toFixed2_def)

text \<open>
  C10. Two inputs that differ only in \<open>hasNoBank\<close> get the same \<open>fuelSpendSavings\<close>, the
  same \<open>standardUpfrontBenefits\<close> and the same four \<open>co2Emissions\<close> fields.
\<close>

theorem no_bank_flag_frame:
  assumes "b = a\<lparr>hasNoBank := hasNoBank b\<rparr>"
  shows "fuelSpendSavings (calculate a) = fuelSpendSavings (calculate b) \<and>
         standardUpfrontBenefits (calculate a) = standardUpfrontBenefits (calculate b) \<and>
         ice (co2Emissions (calculate a)) = ice (co2Emissions (calculate b)) \<and>
         ev (co2Emissions (calculate a)) = ev (co2Emissions (calculate b)) \<and>
         monthlySavings (co2Emissions (calculate a)) = monthlySavings (co2Emissions (calculate b)) \<and>
         yearlySavings (co2Emissions (calculate a)) = yearlySavings (co2Emissions (calculate b)) \<and>
         fuelSpendSavings (calculateSavings a) = fuelSpendSavings (calculateSavings b) \<and>
         standardUpfrontBenefits (calculateSavings a) =
           standardUpfrontBenefits (calculateSavings b) \<and>
         ice (co2Emissions (calculateSavings a)) = ice (co2Emissions (calculateSavings b)) \<and>
         ev (co2Emissions (calculateSavings a)) = ev (co2Emissions (calculateSavings b)) \<and>
         monthlySavings (co2Emissions (calculateSavings a)) =
           monthlySavings (co2Emissions (calculateSavings b)) \<and>
         yearlySavings (co2Emissions (calculateSavings a)) =
           yearlySavings (co2Emissions (calculateSavings b))"
proof -
  have "fuelSpendSavings (calculate b) = fuelSpendSavings (calculate a)"
    "standardUpfrontBenefits (calculate b) = standardUpfrontBenefits (calculate a)"
    "co2Emissions (calculate b) = co2Emissions (calculate a)"
    using calculate_noBank_frame[where data = a and v = "hasNoBank b"] assms by simp_all
  moreover have "fuelSpendSavings (calculateSavings b) = fuelSpendSavings (calculateSavings a)"
    "standardUpfrontBenefits (calculateSavings b) = standardUpfrontBenefits (calculateSavings a)"
    "co2Emissions (calculateSavings b) = co2Emissions (calculateSavings a)"
    using calculateSavings_noBank_frame[where data = a and v = "hasNoBank b"] assms by simp_all
  ultimately show ?thesis by simp
qed

theorem no_bank_flag_frame_witness:
  "sample_request\<lparr>hasNoBank := True\<rparr> =
     sample_request\<lparr>hasNoBank := hasNoBank (sample_request\<lparr>hasNoBank := True\<rparr>)\<rparr> \<and>
   hasNoBank (sample_request\<lparr>hasNoBank := True\<rparr>) \<noteq> hasNoBank sample_request \<and>
   fuelSpendSavings (calculate sample_request) =
     fuelSpendSavings (calculate (sample_request\<lparr>hasNoBank := True\<rparr>)) \<and>
   standardUpfrontBenefits (calculateSavings sample_request) =
     standardUpfrontBenefits (calculateSavings (sample_request\<lparr>hasNoBank := True\<rparr>)) \<and>
   ev (co2Emissions (calculate sample_request)) =
     ev (co2Emissions (calculate (sample_request\<lparr>hasNoBank := True\<rparr>)))"
proof -
  have h: "sample_request\<lparr>hasNoBank := True\<rparr> =
     sample_request\<lparr>hasNoBank := hasNoBank (sample_request\<lparr>hasNoBank := True\<rparr>)\<rparr>"
    by simp
  have d: "hasNoBank (sample_request\<lparr>hasNoBank := True\<rparr>) \<noteq> hasNoBank sample_request"
    by (simp add: sample_request_def)
  show ?thesis using h d no_bank_flag_frame[OF h] by blast
qed

end
